theory Spec2Isabelle
  imports Complex_Main
begin

section \<open>JavaScript primitives used by the two game loops\<close>

text \<open>
  The game is written in TypeScript. Its \<^verbatim>\<open>number\<close> values are modelled as exact
  reals (rounding of IEEE doubles is not part of the model), array reads as partial
  lookups (\<^verbatim>\<open>undefined\<close> is \<open>None\<close>), and every \<^verbatim>\<open>Math.random()\<close> call as a
  value supplied from outside, expected to lie in \<open>[0, 1)\<close>.
\<close>

definition js_index :: "'a list \<Rightarrow> int \<Rightarrow> 'a option" where
  \<comment> \<open>\<^verbatim>\<open>xs[i]\<close> for an integer \<open>i\<close>: \<^verbatim>\<open>undefined\<close> outside \<open>0 .. length - 1\<close>.\<close>
  "js_index xs i = (if 0 \<le> i \<and> nat i < length xs then Some (xs ! nat i) else None)"

definition js_round :: "real \<Rightarrow> int" where
  \<comment> \<open>\<^verbatim>\<open>Math.round\<close>: nearest integer, ties towards plus infinity.\<close>
  "js_round v = \<lfloor>v + 1 / 2\<rfloor>"

definition js_rem :: "real \<Rightarrow> real \<Rightarrow> real" where
  \<comment> \<open>\<^verbatim>\<open>a % b\<close> for a nonzero \<open>b\<close>: the quotient is truncated towards zero.\<close>
  "js_rem a b = a - b * of_int (if 0 \<le> a / b then \<lfloor>a / b\<rfloor> else \<lceil>a / b\<rceil>)"

datatype GameMode = classic | timeAttack | quickRace | endless | competition

type_synonym GameEnd = "real \<times> real"
  \<comment> \<open>the arguments of one \<^verbatim>\<open>onGameEnd(score, time)\<close> call\<close>

section \<open>The 3D game (Car3D.tsx, RacingGame3D)\<close>

record Enemy =
  enemy_x :: "real option"
  enemy_z :: real
  enemy_speed :: real
  enemy_lane :: int
  enemy_color :: "string option"
  enemy_aggressiveness :: "real option"

record GameState =
  mode :: GameMode
  score :: real
  time :: real
  speed :: real
  position :: real
  lap :: nat
  isPlaying :: bool
  isPaused :: bool
  gameOver :: bool
  playerX :: real
  enemies :: "Enemy list"
  roadOffset :: real
  countdown :: nat
  nitroBoost :: real
  health :: real
  perfectDriving :: nat
  lastCollision :: real
  competitionRank :: nat

record ModeConfig =
  timeLimit :: "real option"    \<comment> \<open>\<open>None\<close> is \<^verbatim>\<open>Infinity\<close>\<close>
  targetScore :: "real option"  \<comment> \<open>\<open>None\<close> is \<^verbatim>\<open>Infinity\<close>\<close>
  config_enemies :: nat
  maxSpeed :: real
  hasNitro :: bool
  hasHealth :: bool
  aggressiveAI :: bool

text \<open>The random numbers one enemy may consume in one frame, in the order of the source.\<close>

record Draws =
  draw_z :: real
  draw_lane :: real
  draw_speed :: real
  draw_color :: real
  draw_block :: real

definition LANES :: "real list" where
  "LANES = [-2, 0, 2]"

definition ENEMY_COLORS :: "string list" where
  "ENEMY_COLORS = [''#ff4444'', ''#44ff44'', ''#4444ff'', ''#ffff44'', ''#ff44ff'', ''#44ffff'']"

fun getModeConfig :: "GameMode \<Rightarrow> ModeConfig" where
  "getModeConfig timeAttack =
     \<lparr>timeLimit = Some 60, targetScore = Some 10000, config_enemies = 8, maxSpeed = 15,
      hasNitro = False, hasHealth = False, aggressiveAI = False\<rparr>"
| "getModeConfig quickRace =
     \<lparr>timeLimit = Some 30, targetScore = Some 5000, config_enemies = 6, maxSpeed = 12,
      hasNitro = False, hasHealth = False, aggressiveAI = False\<rparr>"
| "getModeConfig competition =
     \<lparr>timeLimit = Some 120, targetScore = Some 25000, config_enemies = 15, maxSpeed = 20,
      hasNitro = True, hasHealth = True, aggressiveAI = True\<rparr>"
| "getModeConfig endless =
     \<lparr>timeLimit = None, targetScore = None, config_enemies = 10, maxSpeed = 18,
      hasNitro = False, hasHealth = False, aggressiveAI = False\<rparr>"
| "getModeConfig classic =
     \<lparr>timeLimit = Some 90, targetScore = Some 15000, config_enemies = 8, maxSpeed = 15,
      hasNitro = False, hasHealth = False, aggressiveAI = False\<rparr>"

text \<open>Handle input: steering, then accelerate / brake / coast.\<close>

definition steer :: "string set \<Rightarrow> real \<Rightarrow> real" where
  "steer keys x0 =
     (let x1 = (if ''ArrowLeft'' \<in> keys \<and> x0 > -4 then x0 - 0.1 else x0)
      in if ''ArrowRight'' \<in> keys \<and> x1 < 4 then x1 + 0.1 else x1)"

definition throttle :: "string set \<Rightarrow> ModeConfig \<Rightarrow> real \<Rightarrow> real" where
  "throttle keys config v =
     (if ''ArrowUp'' \<in> keys then min (v + 0.3) (maxSpeed config)
      else if ''ArrowDown'' \<in> keys then max (v - 0.5) 2
      else max (v - 0.1) 5)"

text \<open>Nitro boost: whether it is used this frame, the boosted speed and the new meter.\<close>

definition usesNitro :: "string set \<Rightarrow> ModeConfig \<Rightarrow> GameState \<Rightarrow> bool" where
  "usesNitro keys config prev \<longleftrightarrow>
     hasNitro config \<and> ''ShiftLeft'' \<in> keys \<and> nitroBoost prev > 0"

definition boosted :: "string set \<Rightarrow> ModeConfig \<Rightarrow> GameState \<Rightarrow> real" where
  "boosted keys config prev =
     (if usesNitro keys config prev
      then min (throttle keys config (speed prev) + 0.8) (maxSpeed config + 5)
      else throttle keys config (speed prev))"

definition nitroAfter :: "string set \<Rightarrow> ModeConfig \<Rightarrow> GameState \<Rightarrow> real" where
  "nitroAfter keys config prev =
     (if usesNitro keys config prev then max (nitroBoost prev - 0.5) 0
      else if hasNitro config then min (nitroBoost prev + 0.1) 100
      else nitroBoost prev)"

text \<open>Update one enemy: respawn when too far ahead, otherwise the aggressive AI.\<close>

definition truthy :: "real option \<Rightarrow> bool" where
  \<comment> \<open>\<^verbatim>\<open>undefined\<close> and \<open>0\<close> are falsy.\<close>
  "truthy a = (case a of None \<Rightarrow> False | Some v \<Rightarrow> v \<noteq> 0)"

definition blocks :: "real \<Rightarrow> Draws \<Rightarrow> Enemy \<Rightarrow> real \<Rightarrow> bool" where
  \<comment> \<open>the three nested conditions under which the enemy moves to the player's lane\<close>
  "blocks newPlayerX d enemy newZ \<longleftrightarrow>
     \<bar>newZ - 0\<bar> < 5 \<and>
     (case enemy_aggressiveness enemy of None \<Rightarrow> False | Some a \<Rightarrow> draw_block d < a * 0.1) \<and>
     \<bar>enemy_lane enemy - js_round ((newPlayerX + 2) / 2)\<bar> = 1"

definition updateEnemy :: "ModeConfig \<Rightarrow> real \<Rightarrow> Draws \<Rightarrow> Enemy \<Rightarrow> Enemy" where
  "updateEnemy config newPlayerX d enemy =
     (let newZ = enemy_z enemy + enemy_speed enemy in
      if newZ > 15 then
        (let newLane = \<lfloor>draw_lane d * 3\<rfloor> in
         enemy\<lparr>enemy_x := js_index LANES newLane,
               enemy_z := -20 - draw_z d * 10,
               enemy_lane := newLane,
               enemy_speed := 3 + draw_speed d * 3,
               enemy_color := js_index ENEMY_COLORS \<lfloor>draw_color d * 6\<rfloor>\<rparr>)
      else if aggressiveAI config \<and> truthy (enemy_aggressiveness enemy)
              \<and> blocks newPlayerX d enemy newZ then
        (let playerLane = js_round ((newPlayerX + 2) / 2) in
         enemy\<lparr>enemy_x := js_index LANES playerLane, enemy_z := newZ, enemy_lane := playerLane\<rparr>)
      else enemy\<lparr>enemy_z := newZ\<rparr>)"

definition updateEnemies :: "ModeConfig \<Rightarrow> real \<Rightarrow> (nat \<Rightarrow> Draws) \<Rightarrow> Enemy list \<Rightarrow> Enemy list" where
  "updateEnemies config newPlayerX rnd es =
     map (\<lambda>(index, enemy). updateEnemy config newPlayerX (rnd index) enemy) (enumerate 0 es)"

text \<open>
  Collision detection: the player's rectangle against one enemy's. An enemy whose \<open>x\<close> is
  \<^verbatim>\<open>undefined\<close> gives \<^verbatim>\<open>NaN\<close> bounds, and every comparison with \<^verbatim>\<open>NaN\<close> is false.
\<close>

definition overlaps :: "real \<Rightarrow> Enemy \<Rightarrow> bool" where
  "overlaps newPlayerX enemy =
     (case enemy_x enemy of
        None \<Rightarrow> False
      | Some ex \<Rightarrow>
          newPlayerX - 0.4 < (ex - 0.4) + 0.8 \<and>
          (newPlayerX - 0.4) + 0.8 > ex - 0.4 \<and>
          -0.8 < (enemy_z enemy - 0.8) + 1.6 \<and>
          -0.8 + 1.6 > enemy_z enemy - 0.8)"

definition collisionDetected :: "real \<Rightarrow> Enemy list \<Rightarrow> bool" where
  "collisionDetected newPlayerX es = list_ex (overlaps newPlayerX) es"

text \<open>Update score with bonuses.\<close>

definition scoreMultiplier :: "ModeConfig \<Rightarrow> bool \<Rightarrow> nat \<Rightarrow> real \<Rightarrow> real" where
  "scoreMultiplier config usedNitro perfect newSpeed =
     1 + (if hasNitro config \<and> usedNitro then 0.5 else 0)
       + (if perfect > 60 then 0.3 else 0)
       + (if newSpeed > maxSpeed config * 0.9 then 0.2 else 0)"

text \<open>Competition mode: calculate rank.\<close>

definition rankOf :: "ModeConfig \<Rightarrow> Enemy list \<Rightarrow> nat" where
  "rankOf config es = min (1 + length (filter (\<lambda>enemy. enemy_z enemy > 0) es)) (config_enemies config + 1)"

text \<open>
  The state updater of one animation frame. It returns the new state and the
  \<^verbatim>\<open>onGameEnd\<close> call it makes, if any.
\<close>

definition gameLoop3D :: "string set \<Rightarrow> (nat \<Rightarrow> Draws) \<Rightarrow> GameState \<Rightarrow> GameState \<times> GameEnd option" where
  "gameLoop3D keys rnd prev =
     (let config = getModeConfig (mode prev);
          newTime = time prev + 1 / 60;
          newPlayerX = steer keys (playerX prev);
          usedNitro = usesNitro keys config prev;
          newSpeed = boosted keys config prev;
          newPerfect = (if \<bar>newPlayerX\<bar> < 1 \<and> newSpeed > maxSpeed config * 0.8
                        then perfectDriving prev + 1 else perfectDriving prev);
          newEnemies = updateEnemies config newPlayerX rnd (enemies prev);
          hit = collisionDetected newPlayerX newEnemies;
          newHealth = (if hit \<and> hasHealth config then max (health prev - 10) 0 else health prev);
          crashed = (hit \<and> (if hasHealth config then newHealth \<le> 0 else True));
          timeUp = (case timeLimit config of None \<Rightarrow> False | Some limit \<Rightarrow> newTime \<ge> limit);
          newState = prev
            \<lparr>time := newTime,
             nitroBoost := nitroAfter keys config prev,
             playerX := newPlayerX,
             speed := newSpeed,
             position := position prev + newSpeed,
             roadOffset := js_rem (roadOffset prev + newSpeed) 10,
             perfectDriving := newPerfect,
             enemies := newEnemies,
             lastCollision := (if hit then newTime else lastCollision prev),
             health := newHealth,
             score := score prev + newSpeed * 10 * scoreMultiplier config usedNitro newPerfect newSpeed,
             competitionRank := (if aggressiveAI config then rankOf config newEnemies
                                 else competitionRank prev),
             gameOver := (gameOver prev \<or> crashed \<or> timeUp),
             isPlaying := (if crashed \<or> timeUp then False else isPlaying prev)\<rparr>
      in (newState, if gameOver newState then Some (score newState, time newState) else None))"

text \<open>
  The effect that schedules the updater returns at once unless the game is playing and
  not paused; only then does a frame run \<open>gameLoop3D\<close>.
\<close>

definition frame3D :: "string set \<Rightarrow> (nat \<Rightarrow> Draws) \<Rightarrow> GameState \<Rightarrow> GameState \<times> GameEnd option" where
  "frame3D keys rnd s =
     (if \<not> isPlaying s \<or> isPaused s then (s, None) else gameLoop3D keys rnd s)"

text \<open>Running the frames of a session in order, collecting the \<^verbatim>\<open>onGameEnd\<close> calls.\<close>

record Input =
  held :: "string set"
  random :: "nat \<Rightarrow> Draws"

fun run3D :: "Input list \<Rightarrow> GameState \<Rightarrow> GameState \<times> GameEnd list" where
  "run3D [] s = (s, [])"
| "run3D (i # is) s =
     (let (s', e) = frame3D (held i) (random i) s;
          (s'', es) = run3D is s'
      in (s'', (case e of None \<Rightarrow> [] | Some c \<Rightarrow> [c]) @ es))"

text \<open>The state set by \<^verbatim>\<open>initGame\<close>, and the last tick of the countdown.\<close>

record InitDraws =
  init_x :: real
  init_speed :: real
  init_lane :: real
  init_color :: real
  init_aggressiveness :: real

definition initEnemy :: "ModeConfig \<Rightarrow> InitDraws \<Rightarrow> nat \<Rightarrow> Enemy" where
  "initEnemy config d i =
     \<lparr>enemy_x = js_index LANES \<lfloor>init_x d * 3\<rfloor>,
      enemy_z = - real i * 3 - 5,
      enemy_speed = 3 + init_speed d * 2,
      enemy_lane = \<lfloor>init_lane d * 3\<rfloor>,
      enemy_color = js_index ENEMY_COLORS \<lfloor>init_color d * 6\<rfloor>,
      enemy_aggressiveness =
        Some (if aggressiveAI config then init_aggressiveness d * 0.5 + 0.5 else 0.2)\<rparr>"

definition initGame3D :: "GameMode \<Rightarrow> (nat \<Rightarrow> InitDraws) \<Rightarrow> GameState" where
  "initGame3D m rnd =
     \<lparr>mode = m, score = 0, time = 0, speed = 5, position = 0, lap = 1,
      isPlaying = False, isPaused = False, gameOver = False, playerX = 0,
      enemies = map (\<lambda>i. initEnemy (getModeConfig m) (rnd i) i) [0 ..< config_enemies (getModeConfig m)],
      roadOffset = 0, countdown = 3, nitroBoost = 100, health = 100, perfectDriving = 0,
      lastCollision = 0, competitionRank = 1\<rparr>"

definition countdownDone3D :: "GameState \<Rightarrow> GameState" where
  "countdownDone3D prev = prev\<lparr>isPlaying := True, countdown := 0\<rparr>"

text \<open>
  The lifecycle around the frames: the Space key and the countdown. Every call of
  \<^verbatim>\<open>startCountdown\<close> creates an interval with a \<^verbatim>\<open>count\<close> of its own, starting at 3, and
  nothing clears an interval but its own last tick. A session is the game state together
  with the counts of the live intervals, oldest first. A tick shows its count, decrements
  it and, once it is below 0, clears the interval and sets \<open>isPlaying\<close>.
\<close>

record Session =
  game :: GameState
  intervals :: "int list"

definition startCountdown :: "Session \<Rightarrow> Session" where
  "startCountdown ss = ss\<lparr>intervals := intervals ss @ [3]\<rparr>"

definition countdownTick :: "nat \<Rightarrow> Session \<Rightarrow> Session" where
  "countdownTick i ss =
     (if i < length (intervals ss) then
        (let count = intervals ss ! i;
             shown = (game ss)\<lparr>countdown := nat count\<rparr>
         in if count - 1 < 0
            then \<lparr>game = countdownDone3D shown,
                  intervals = take i (intervals ss) @ drop (Suc i) (intervals ss)\<rparr>
            else \<lparr>game = shown, intervals = (intervals ss)[i := count - 1]\<rparr>)
      else ss)"

definition handleKeyDownSpace :: "Session \<Rightarrow> Session" where
  "handleKeyDownSpace ss =
     (if \<not> isPlaying (game ss) \<and> \<not> gameOver (game ss) then startCountdown ss
      else if isPlaying (game ss)
        then ss\<lparr>game := (game ss)\<lparr>isPaused := \<not> isPaused (game ss)\<rparr>\<rparr>
      else ss)"

text \<open>
  The events of a session in the order in which they happen: a press of Space, a tick of
  the live interval at a given place, a frame with its input.
\<close>

datatype Event = Space | Tick nat | Frame Input

fun session3D :: "Event list \<Rightarrow> Session \<Rightarrow> Session \<times> GameEnd list" where
  "session3D [] ss = (ss, [])"
| "session3D (Space # es) ss = session3D es (handleKeyDownSpace ss)"
| "session3D (Tick i # es) ss = session3D es (countdownTick i ss)"
| "session3D (Frame i # es) ss =
     (let (g, e) = frame3D (held i) (random i) (game ss);
          (ss', cs) = session3D es (ss\<lparr>game := g\<rparr>)
      in (ss', (case e of None \<Rightarrow> [] | Some c \<Rightarrow> [c]) @ cs))"

section \<open>The 2D game (RacingGame.tsx, RacingGame)\<close>

record Enemy2D =
  enemy2D_x :: "real option"
  enemy2D_y :: real
  enemy2D_speed :: real
  enemy2D_lane :: int

record GameState2D =
  mode2D :: GameMode
  score2D :: real
  time2D :: real
  speed2D :: real
  position2D :: real
  lap2D :: nat
  isPlaying2D :: bool
  isPaused2D :: bool
  gameOver2D :: bool
  playerX2D :: real
  enemies2D :: "Enemy2D list"
  roadOffset2D :: real
  countdown2D :: nat

record ModeConfig2D =
  timeLimit2D :: "real option"
  targetScore2D :: "real option"
  config_enemies2D :: nat

record Draws2D =
  draw2D_y :: real
  draw2D_x :: real
  draw2D_speed :: real

definition GAME_WIDTH :: real where "GAME_WIDTH = 800"
definition GAME_HEIGHT :: real where "GAME_HEIGHT = 600"
definition ROAD_WIDTH :: real where "ROAD_WIDTH = 400"
definition PLAYER_SPEED :: real where "PLAYER_SPEED = 5"
definition ENEMY_SPEED :: real where "ENEMY_SPEED = 3"
definition LANES2D :: "real list" where "LANES2D = [-150, -50, 50, 150]"

fun getModeConfig2D :: "GameMode \<Rightarrow> ModeConfig2D" where
  "getModeConfig2D timeAttack = \<lparr>timeLimit2D = Some 60, targetScore2D = Some 10000, config_enemies2D = 8\<rparr>"
| "getModeConfig2D quickRace = \<lparr>timeLimit2D = Some 30, targetScore2D = Some 5000, config_enemies2D = 6\<rparr>"
| "getModeConfig2D competition = \<lparr>timeLimit2D = Some 120, targetScore2D = Some 25000, config_enemies2D = 12\<rparr>"
| "getModeConfig2D endless = \<lparr>timeLimit2D = None, targetScore2D = None, config_enemies2D = 10\<rparr>"
| "getModeConfig2D classic = \<lparr>timeLimit2D = Some 90, targetScore2D = Some 15000, config_enemies2D = 8\<rparr>"

definition steer2D :: "string set \<Rightarrow> real \<Rightarrow> real" where
  "steer2D keys x0 =
     (let x1 = (if ''ArrowLeft'' \<in> keys \<and> x0 > - ROAD_WIDTH / 2 + 40 then x0 - PLAYER_SPEED else x0)
      in if ''ArrowRight'' \<in> keys \<and> x1 < ROAD_WIDTH / 2 - 40 then x1 + PLAYER_SPEED else x1)"

definition throttle2D :: "string set \<Rightarrow> real \<Rightarrow> real" where
  "throttle2D keys v =
     (if ''ArrowUp'' \<in> keys then min (v + 0.5) 15
      else if ''ArrowDown'' \<in> keys then max (v - 1) 0
      else max (v - 0.2) 5)"

definition updateEnemy2D :: "real \<Rightarrow> Draws2D \<Rightarrow> Enemy2D \<Rightarrow> Enemy2D" where
  "updateEnemy2D newSpeed d enemy =
     (let newY = enemy2D_y enemy + enemy2D_speed enemy + newSpeed * 0.5 in
      if newY > GAME_HEIGHT + 100 then
        enemy\<lparr>enemy2D_x := js_index LANES2D \<lfloor>draw2D_x d * 4\<rfloor>,
              enemy2D_y := -200 - draw2D_y d * 500,
              enemy2D_speed := ENEMY_SPEED + draw2D_speed d * 3\<rparr>
      else enemy\<lparr>enemy2D_y := newY\<rparr>)"

definition updateEnemies2D :: "real \<Rightarrow> (nat \<Rightarrow> Draws2D) \<Rightarrow> Enemy2D list \<Rightarrow> Enemy2D list" where
  "updateEnemies2D newSpeed rnd es =
     map (\<lambda>(index, enemy). updateEnemy2D newSpeed (rnd index) enemy) (enumerate 0 es)"

definition overlaps2D :: "real \<Rightarrow> Enemy2D \<Rightarrow> bool" where
  "overlaps2D newPlayerX enemy =
     (case enemy2D_x enemy of
        None \<Rightarrow> False
      | Some ex \<Rightarrow>
          newPlayerX - 25 < (ex - 25) + 50 \<and>
          (newPlayerX - 25) + 50 > ex - 25 \<and>
          GAME_HEIGHT - 120 < enemy2D_y enemy + 80 \<and>
          (GAME_HEIGHT - 120) + 80 > enemy2D_y enemy)"

definition collisionDetected2D :: "real \<Rightarrow> Enemy2D list \<Rightarrow> bool" where
  "collisionDetected2D newPlayerX es = list_ex (overlaps2D newPlayerX) es"

definition gameLoop2D :: "string set \<Rightarrow> (nat \<Rightarrow> Draws2D) \<Rightarrow> GameState2D \<Rightarrow> GameState2D \<times> GameEnd option" where
  "gameLoop2D keys rnd prev =
     (let config = getModeConfig2D (mode2D prev);
          newTime = time2D prev + 1 / 60;
          newPlayerX = steer2D keys (playerX2D prev);
          newSpeed = throttle2D keys (speed2D prev);
          newEnemies = updateEnemies2D newSpeed rnd (enemies2D prev);
          hit = collisionDetected2D newPlayerX newEnemies;
          timeUp = (case timeLimit2D config of None \<Rightarrow> False | Some limit \<Rightarrow> newTime \<ge> limit);
          newState = prev
            \<lparr>time2D := newTime,
             playerX2D := newPlayerX,
             speed2D := newSpeed,
             position2D := position2D prev + newSpeed,
             roadOffset2D := js_rem (roadOffset2D prev + newSpeed) 100,
             enemies2D := newEnemies,
             score2D := score2D prev + newSpeed * 10,
             gameOver2D := (gameOver2D prev \<or> hit \<or> timeUp),
             isPlaying2D := (if hit \<or> timeUp then False else isPlaying2D prev)\<rparr>
      in (newState, if gameOver2D newState then Some (score2D newState, time2D newState) else None))"

definition frame2D :: "string set \<Rightarrow> (nat \<Rightarrow> Draws2D) \<Rightarrow> GameState2D \<Rightarrow> GameState2D \<times> GameEnd option" where
  "frame2D keys rnd s =
     (if \<not> isPlaying2D s \<or> isPaused2D s then (s, None) else gameLoop2D keys rnd s)"

record Input2D =
  held2D :: "string set"
  random2D :: "nat \<Rightarrow> Draws2D"

fun run2D :: "Input2D list \<Rightarrow> GameState2D \<Rightarrow> GameState2D \<times> GameEnd list" where
  "run2D [] s = (s, [])"
| "run2D (i # is) s =
     (let (s', e) = frame2D (held2D i) (random2D i) s;
          (s'', es) = run2D is s'
      in (s'', (case e of None \<Rightarrow> [] | Some c \<Rightarrow> [c]) @ es))"

record InitDraws2D =
  init2D_x :: real
  init2D_speed :: real
  init2D_lane :: real

definition initEnemy2D :: "InitDraws2D \<Rightarrow> nat \<Rightarrow> Enemy2D" where
  "initEnemy2D d i =
     \<lparr>enemy2D_x = js_index LANES2D \<lfloor>init2D_x d * 4\<rfloor>,
      enemy2D_y = - real i * 150 - 100,
      enemy2D_speed = ENEMY_SPEED + init2D_speed d * 2,
      enemy2D_lane = \<lfloor>init2D_lane d * 4\<rfloor>\<rparr>"

definition initGame2D :: "GameMode \<Rightarrow> (nat \<Rightarrow> InitDraws2D) \<Rightarrow> GameState2D" where
  "initGame2D m rnd =
     \<lparr>mode2D = m, score2D = 0, time2D = 0, speed2D = 0, position2D = 0, lap2D = 1,
      isPlaying2D = False, isPaused2D = False, gameOver2D = False, playerX2D = 0,
      enemies2D = map (\<lambda>i. initEnemy2D (rnd i) i) [0 ..< config_enemies2D (getModeConfig2D m)],
      roadOffset2D = 0, countdown2D = 3\<rparr>"

definition countdownDone2D :: "GameState2D \<Rightarrow> GameState2D" where
  "countdownDone2D prev = prev\<lparr>isPlaying2D := True, countdown2D := 0\<rparr>"

section \<open>Observations on a frame\<close>

text \<open>Whether the collision test of the frame that starts in \<open>s\<close> succeeds.\<close>

definition hits3D :: "string set \<Rightarrow> (nat \<Rightarrow> Draws) \<Rightarrow> GameState \<Rightarrow> bool" where
  "hits3D keys rnd s =
     collisionDetected (steer keys (playerX s))
       (updateEnemies (getModeConfig (mode s)) (steer keys (playerX s)) rnd (enemies s))"

definition hits2D :: "string set \<Rightarrow> (nat \<Rightarrow> Draws2D) \<Rightarrow> GameState2D \<Rightarrow> bool" where
  "hits2D keys rnd s =
     collisionDetected2D (steer2D keys (playerX2D s))
       (updateEnemies2D (throttle2D keys (speed2D s)) rnd (enemies2D s))"

text \<open>Whether the clock of the frame that starts in \<open>s\<close> reaches the mode's time limit.\<close>

definition timeUp3D :: "GameState \<Rightarrow> bool" where
  "timeUp3D s =
     (case timeLimit (getModeConfig (mode s)) of None \<Rightarrow> False | Some limit \<Rightarrow> limit \<le> time s + 1 / 60)"

definition timeUp2D :: "GameState2D \<Rightarrow> bool" where
  "timeUp2D s =
     (case timeLimit2D (getModeConfig2D (mode2D s)) of None \<Rightarrow> False | Some limit \<Rightarrow> limit \<le> time2D s + 1 / 60)"

text \<open>The number of frames of a run on which the updater runs and detects a collision.\<close>

fun hitCount3D :: "Input list \<Rightarrow> GameState \<Rightarrow> nat" where
  "hitCount3D [] s = 0"
| "hitCount3D (i # is) s =
     (if isPlaying s \<and> \<not> isPaused s \<and> hits3D (held i) (random i) s then 1 else 0)
       + hitCount3D is (fst (frame3D (held i) (random i) s))"

text \<open>The fields that both games have, apart from the enemies.\<close>

definition shared3D :: "GameState \<Rightarrow> GameMode \<times> real \<times> real \<times> real \<times> real \<times> real" where
  "shared3D s = (mode s, time s, speed s, playerX s, position s, score s)"

definition shared2D :: "GameState2D \<Rightarrow> GameMode \<times> real \<times> real \<times> real \<times> real \<times> real" where
  "shared2D s = (mode2D s, time2D s, speed2D s, playerX2D s, position2D s, score2D s)"

section \<open>Concrete sessions\<close>

definition quietDraws :: Draws where
  "quietDraws = \<lparr>draw_z = 0, draw_lane = 0, draw_speed = 0, draw_color = 0, draw_block = 0.99\<rparr>"

definition quietDraws2D :: Draws2D where
  "quietDraws2D = \<lparr>draw2D_y = 0, draw2D_x = 0, draw2D_speed = 0\<rparr>"

definition zeroInit2D :: InitDraws2D where
  "zeroInit2D = \<lparr>init2D_x = 0, init2D_speed = 0, init2D_lane = 0\<rparr>"

definition zeroInit :: InitDraws where
  "zeroInit = \<lparr>init_x = 0, init_speed = 0, init_lane = 0, init_color = 0, init_aggressiveness = 0\<rparr>"

definition coast :: Input where
  "coast = \<lparr>held = {}, random = (\<lambda>_. quietDraws)\<rparr>"

definition coast2D :: Input2D where
  "coast2D = \<lparr>held2D = {}, random2D = (\<lambda>_. quietDraws2D)\<rparr>"

definition boost :: Input where
  "boost = \<lparr>held = {''ArrowUp'', ''ShiftLeft''}, random = (\<lambda>_. quietDraws)\<rparr>"

text \<open>An empty road in a given mode at a given time, playing.\<close>

definition emptyRoad :: "GameMode \<Rightarrow> real \<Rightarrow> GameState" where
  "emptyRoad m t =
     \<lparr>mode = m, score = 0, time = t, speed = 5, position = 0, lap = 1,
      isPlaying = True, isPaused = False, gameOver = False, playerX = 0, enemies = [],
      roadOffset = 0, countdown = 0, nitroBoost = 100, health = 100, perfectDriving = 0,
      lastCollision = 0, competitionRank = 1\<rparr>"

definition emptyRoad2D :: "GameMode \<Rightarrow> real \<Rightarrow> GameState2D" where
  "emptyRoad2D m t =
     \<lparr>mode2D = m, score2D = 0, time2D = t, speed2D = 5, position2D = 0, lap2D = 1,
      isPlaying2D = True, isPaused2D = False, gameOver2D = False, playerX2D = 0, enemies2D = [],
      roadOffset2D = 0, countdown2D = 0\<rparr>"

text \<open>An enemy standing on the player's rectangle, and one about to leave the road ahead.\<close>

definition parked :: Enemy where
  "parked = \<lparr>enemy_x = Some 0, enemy_z = 0, enemy_speed = 0, enemy_lane = 1,
             enemy_color = Some ''#ff4444'', enemy_aggressiveness = Some 0.2\<rparr>"

definition leaving :: Enemy where
  "leaving = \<lparr>enemy_x = Some 2, enemy_z = 14, enemy_speed = 3, enemy_lane = 2,
              enemy_color = Some ''#ff4444'', enemy_aggressiveness = Some 0.2\<rparr>"

definition parked2D :: Enemy2D where
  "parked2D = \<lparr>enemy2D_x = Some 50, enemy2D_y = 450, enemy2D_speed = 0, enemy2D_lane = 2\<rparr>"

definition leaving2D :: Enemy2D where
  "leaving2D = \<lparr>enemy2D_x = Some 150, enemy2D_y = 699, enemy2D_speed = 3, enemy2D_lane = 3\<rparr>"

text \<open>
  A classic session from \<^verbatim>\<open>initGame\<close> with every enemy in the player's lane. Space is
  pressed twice before the game starts, so two countdowns run; the first one starts the
  game, the second enemy-free frame is followed by a crash, and then the second countdown
  makes its last tick.
\<close>

definition sameLane :: InitDraws where
  "sameLane = \<lparr>init_x = 0.4, init_speed = 0, init_lane = 0.4, init_color = 0, init_aggressiveness = 0\<rparr>"

definition freshSession :: Session where
  "freshSession = \<lparr>game = initGame3D classic (\<lambda>_. sameLane), intervals = []\<rparr>"

definition twoCountdowns :: "Event list" where
  "twoCountdowns = [Space, Space, Tick 0, Tick 1, Tick 0, Tick 1, Tick 0, Tick 1, Tick 0]"

definition crashed :: Session where
  "crashed = fst (session3D (twoCountdowns @ [Frame coast, Frame coast]) freshSession)"

definition revived :: Session where
  "revived = fst (session3D (twoCountdowns @ [Frame coast, Frame coast, Tick 0]) freshSession)"

definition doubleStart :: "Event list" where
  "doubleStart =
     twoCountdowns @ [Frame coast, Frame coast, Tick 0, Frame coast, Frame coast, Frame coast]"

definition lifecycle :: "Session \<Rightarrow> bool \<times> bool \<times> bool \<times> real \<times> int list" where
  "lifecycle ss =
     (isPlaying (game ss), isPaused (game ss), gameOver (game ss), score (game ss), intervals ss)"

text \<open>Sessions with one enemy standing on the player's rectangle.\<close>

definition jammed :: "GameMode \<Rightarrow> GameState" where
  "jammed m = (emptyRoad m 0)\<lparr>enemies := [parked]\<rparr>"

definition jammed2D :: "GameMode \<Rightarrow> GameState2D" where
  "jammed2D m = (emptyRoad2D m 0)\<lparr>playerX2D := 50, enemies2D := [parked2D]\<rparr>"

text \<open>
  A competition session from \<^verbatim>\<open>initGame\<close>: all enemies in the left lane, the player in the
  middle, accelerate and nitro held for 14 frames.
\<close>

definition boostedSession :: GameState where
  "boostedSession =
     fst (run3D (replicate 14 boost) (countdownDone3D (initGame3D competition (\<lambda>_. zeroInit))))"

definition summary :: "GameState \<Rightarrow> GameMode \<times> bool \<times> bool \<times> bool \<times> real \<times> real \<times> nat" where
  "summary s = (mode s, isPlaying s, isPaused s, gameOver s, speed s, nitroBoost s, length (enemies s))"

text \<open>Random numbers for a respawn: the middle lane, the second colour.\<close>

definition respawnDraws :: Draws where
  "respawnDraws = \<lparr>draw_z = 0.5, draw_lane = 0.4, draw_speed = 0.5, draw_color = 0.2, draw_block = 0.99\<rparr>"

definition respawnDraws2D :: Draws2D where
  "respawnDraws2D = \<lparr>draw2D_y = 0.5, draw2D_x = 0.3, draw2D_speed = 0.5\<rparr>"

definition crowded :: GameState where
  "crowded = (emptyRoad classic 0)\<lparr>enemies := [leaving]\<rparr>"

definition crowded2D :: GameState2D where
  "crowded2D = (emptyRoad2D classic 0)\<lparr>enemies2D := [leaving2D]\<rparr>"

text \<open>A competition state at full speed in the middle of the road, with a long clean run.\<close>

definition flatOut :: GameState where
  "flatOut = (emptyRoad competition 10)\<lparr>speed := 20, perfectDriving := 100, score := 1000\<rparr>"

definition flatOut2D :: GameState2D where
  "flatOut2D = (emptyRoad2D competition 10)\<lparr>speed2D := 15, score2D := 1000\<rparr>"

text \<open>
  A competition state with the player near the left edge of the road and an aggressive enemy
  in the leftmost lane, close by; and random numbers that let the enemy block.
\<close>

definition blocker :: Enemy where
  "blocker = \<lparr>enemy_x = Some (-2), enemy_z = -4, enemy_speed = 3, enemy_lane = 0,
               enemy_color = Some ''#ff4444'', enemy_aggressiveness = Some 0.9\<rparr>"

definition cornered :: GameState where
  "cornered = (emptyRoad competition 1)\<lparr>playerX := -3.5, enemies := [blocker]\<rparr>"

definition eagerDraws :: Draws where
  "eagerDraws = \<lparr>draw_z = 0, draw_lane = 0, draw_speed = 0, draw_color = 0, draw_block = 0.01\<rparr>"

section \<open>Field-by-field description of one frame\<close>

lemma gameLoop3D_gameOver:
  "gameOver (fst (gameLoop3D keys rnd s)) \<longleftrightarrow>
     gameOver s
     \<or> (hits3D keys rnd s \<and> (hasHealth (getModeConfig (mode s)) \<longrightarrow> health s \<le> 10))
     \<or> (case timeLimit (getModeConfig (mode s)) of None \<Rightarrow> False | Some limit \<Rightarrow> limit \<le> time s + 1 / 60)"
  by (simp add: gameLoop3D_def hits3D_def Let_def)

lemma gameLoop3D_isPlaying:
  "isPlaying (fst (gameLoop3D keys rnd s)) \<longleftrightarrow>
     isPlaying s
     \<and> \<not> (hits3D keys rnd s \<and> (hasHealth (getModeConfig (mode s)) \<longrightarrow> health s \<le> 10))
     \<and> \<not> (case timeLimit (getModeConfig (mode s)) of None \<Rightarrow> False | Some limit \<Rightarrow> limit \<le> time s + 1 / 60)"
  by (simp add: gameLoop3D_def hits3D_def Let_def)

lemma gameLoop3D_event:
  "snd (gameLoop3D keys rnd s) =
     (if gameOver (fst (gameLoop3D keys rnd s))
      then Some (score (fst (gameLoop3D keys rnd s)), time (fst (gameLoop3D keys rnd s))) else None)"
  by (simp add: gameLoop3D_def Let_def)

lemma gameLoop3D_mode: "mode (fst (gameLoop3D keys rnd s)) = mode s"
  by (simp add: gameLoop3D_def Let_def)

lemma gameLoop3D_isPaused: "isPaused (fst (gameLoop3D keys rnd s)) = isPaused s"
  by (simp add: gameLoop3D_def Let_def)

lemma gameLoop3D_time: "time (fst (gameLoop3D keys rnd s)) = time s + 1 / 60"
  by (simp add: gameLoop3D_def Let_def)

lemma gameLoop3D_speed:
  "speed (fst (gameLoop3D keys rnd s)) = boosted keys (getModeConfig (mode s)) s"
  by (simp add: gameLoop3D_def Let_def)

lemma gameLoop3D_health:
  "health (fst (gameLoop3D keys rnd s)) =
     (if hits3D keys rnd s \<and> hasHealth (getModeConfig (mode s)) then max (health s - 10) 0 else health s)"
  by (simp add: gameLoop3D_def hits3D_def Let_def)

lemma gameLoop3D_enemies:
  "enemies (fst (gameLoop3D keys rnd s)) =
     updateEnemies (getModeConfig (mode s)) (steer keys (playerX s)) rnd (enemies s)"
  by (simp add: gameLoop3D_def Let_def)

lemma gameLoop3D_perfectDriving:
  "perfectDriving (fst (gameLoop3D keys rnd s)) =
     (if \<bar>steer keys (playerX s)\<bar> < 1
         \<and> boosted keys (getModeConfig (mode s)) s > maxSpeed (getModeConfig (mode s)) * 0.8
      then perfectDriving s + 1 else perfectDriving s)"
  by (simp add: gameLoop3D_def Let_def)

lemma gameLoop3D_score:
  "score (fst (gameLoop3D keys rnd s)) =
     score s + speed (fst (gameLoop3D keys rnd s)) * 10 *
       scoreMultiplier (getModeConfig (mode s)) (usesNitro keys (getModeConfig (mode s)) s)
         (perfectDriving (fst (gameLoop3D keys rnd s))) (speed (fst (gameLoop3D keys rnd s)))"
  by (simp add: gameLoop3D_def Let_def)

lemma gameLoop2D_gameOver:
  "gameOver2D (fst (gameLoop2D keys rnd s)) \<longleftrightarrow>
     gameOver2D s \<or> hits2D keys rnd s
     \<or> (case timeLimit2D (getModeConfig2D (mode2D s)) of None \<Rightarrow> False | Some limit \<Rightarrow> limit \<le> time2D s + 1 / 60)"
  by (simp add: gameLoop2D_def hits2D_def Let_def)

lemma gameLoop2D_isPlaying:
  "isPlaying2D (fst (gameLoop2D keys rnd s)) \<longleftrightarrow>
     isPlaying2D s \<and> \<not> hits2D keys rnd s
     \<and> \<not> (case timeLimit2D (getModeConfig2D (mode2D s)) of None \<Rightarrow> False | Some limit \<Rightarrow> limit \<le> time2D s + 1 / 60)"
  by (simp add: gameLoop2D_def hits2D_def Let_def)

lemma gameLoop2D_event:
  "snd (gameLoop2D keys rnd s) =
     (if gameOver2D (fst (gameLoop2D keys rnd s))
      then Some (score2D (fst (gameLoop2D keys rnd s)), time2D (fst (gameLoop2D keys rnd s))) else None)"
  by (simp add: gameLoop2D_def Let_def)

lemma gameLoop2D_time: "time2D (fst (gameLoop2D keys rnd s)) = time2D s + 1 / 60"
  by (simp add: gameLoop2D_def Let_def)

lemma gameLoop2D_speed: "speed2D (fst (gameLoop2D keys rnd s)) = throttle2D keys (speed2D s)"
  by (simp add: gameLoop2D_def Let_def)

lemma gameLoop2D_score:
  "score2D (fst (gameLoop2D keys rnd s)) = score2D s + speed2D (fst (gameLoop2D keys rnd s)) * 10"
  by (simp add: gameLoop2D_def Let_def)

lemma gameLoop2D_enemies:
  "enemies2D (fst (gameLoop2D keys rnd s)) =
     updateEnemies2D (throttle2D keys (speed2D s)) rnd (enemies2D s)"
  by (simp add: gameLoop2D_def Let_def)

lemma frame3D_idle: "\<not> isPlaying s \<or> isPaused s \<Longrightarrow> frame3D keys rnd s = (s, None)"
  by (simp add: frame3D_def)

lemma frame3D_playing: "isPlaying s \<Longrightarrow> \<not> isPaused s \<Longrightarrow> frame3D keys rnd s = gameLoop3D keys rnd s"
  by (simp add: frame3D_def)

lemma frame2D_idle: "\<not> isPlaying2D s \<or> isPaused2D s \<Longrightarrow> frame2D keys rnd s = (s, None)"
  by (simp add: frame2D_def)

lemma frame2D_playing: "isPlaying2D s \<Longrightarrow> \<not> isPaused2D s \<Longrightarrow> frame2D keys rnd s = gameLoop2D keys rnd s"
  by (simp add: frame2D_def)

section \<open>Runs\<close>

lemma run3D_idle: "\<not> isPlaying s \<or> isPaused s \<Longrightarrow> run3D is s = (s, [])"
  by (induction "is") (simp_all add: frame3D_idle)

lemma run2D_idle: "\<not> isPlaying2D s \<or> isPaused2D s \<Longrightarrow> run2D is s = (s, [])"
  by (induction "is") (simp_all add: frame2D_idle)

lemma run3D_Cons_fst: "fst (run3D (i # is) s) = fst (run3D is (fst (frame3D (held i) (random i) s)))"
  by (simp add: split_beta Let_def)

lemma run3D_Cons_snd:
  "snd (run3D (i # is) s) =
     (case snd (frame3D (held i) (random i) s) of None \<Rightarrow> [] | Some c \<Rightarrow> [c])
       @ snd (run3D is (fst (frame3D (held i) (random i) s)))"
  by (simp add: split_beta Let_def)

lemma run2D_Cons_fst: "fst (run2D (i # is) s) = fst (run2D is (fst (frame2D (held2D i) (random2D i) s)))"
  by (simp add: split_beta Let_def)

lemma run2D_Cons_snd:
  "snd (run2D (i # is) s) =
     (case snd (frame2D (held2D i) (random2D i) s) of None \<Rightarrow> [] | Some c \<Rightarrow> [c])
       @ snd (run2D is (fst (frame2D (held2D i) (random2D i) s)))"
  by (simp add: split_beta Let_def)

lemma run3D_append:
  "run3D (is @ js) s =
     (fst (run3D js (fst (run3D is s))), snd (run3D is s) @ snd (run3D js (fst (run3D is s))))"
proof (induction "is" arbitrary: s)
  case Nil
  show ?case by simp
next
  case (Cons i "is")
  show ?case
    using Cons.IH [of "fst (frame3D (held i) (random i) s)"]
    by (simp add: split_beta Let_def)
qed

lemma run2D_append:
  "run2D (is @ js) s =
     (fst (run2D js (fst (run2D is s))), snd (run2D is s) @ snd (run2D js (fst (run2D is s))))"
proof (induction "is" arbitrary: s)
  case Nil
  show ?case by simp
next
  case (Cons i "is")
  show ?case
    using Cons.IH [of "fst (frame2D (held2D i) (random2D i) s)"]
    by (simp add: split_beta Let_def)
qed

lemma frame3D_ended_invariant:
  assumes "gameOver s \<longrightarrow> \<not> isPlaying s"
  shows "gameOver (fst (frame3D keys rnd s)) \<longrightarrow> \<not> isPlaying (fst (frame3D keys rnd s))"
proof (cases "\<not> isPlaying s \<or> isPaused s")
  case True
  then show ?thesis using assms by (simp add: frame3D_idle)
next
  case False
  then show ?thesis using assms
    by (simp add: frame3D_playing gameLoop3D_gameOver gameLoop3D_isPlaying)
qed

lemma frame2D_ended_invariant:
  assumes "gameOver2D s \<longrightarrow> \<not> isPlaying2D s"
  shows "gameOver2D (fst (frame2D keys rnd s)) \<longrightarrow> \<not> isPlaying2D (fst (frame2D keys rnd s))"
proof (cases "\<not> isPlaying2D s \<or> isPaused2D s")
  case True
  then show ?thesis using assms by (simp add: frame2D_idle)
next
  case False
  then show ?thesis using assms
    by (simp add: frame2D_playing gameLoop2D_gameOver gameLoop2D_isPlaying)
qed

lemma frame3D_event:
  assumes "gameOver s \<longrightarrow> \<not> isPlaying s"
  shows "snd (frame3D keys rnd s) =
     (if gameOver (fst (frame3D keys rnd s)) \<and> \<not> gameOver s
      then Some (score (fst (frame3D keys rnd s)), time (fst (frame3D keys rnd s))) else None)"
proof (cases "\<not> isPlaying s \<or> isPaused s")
  case True
  then show ?thesis by (simp add: frame3D_idle)
next
  case False
  then have "\<not> gameOver s" using assms by blast
  then show ?thesis using False
    by (simp add: frame3D_playing gameLoop3D_event)
qed

lemma frame2D_event:
  assumes "gameOver2D s \<longrightarrow> \<not> isPlaying2D s"
  shows "snd (frame2D keys rnd s) =
     (if gameOver2D (fst (frame2D keys rnd s)) \<and> \<not> gameOver2D s
      then Some (score2D (fst (frame2D keys rnd s)), time2D (fst (frame2D keys rnd s))) else None)"
proof (cases "\<not> isPlaying2D s \<or> isPaused2D s")
  case True
  then show ?thesis by (simp add: frame2D_idle)
next
  case False
  then have "\<not> gameOver2D s" using assms by blast
  then show ?thesis using False
    by (simp add: frame2D_playing gameLoop2D_event)
qed

lemma frame3D_gameOver_mono: "gameOver s \<Longrightarrow> gameOver (fst (frame3D keys rnd s))"
  by (simp add: frame3D_def gameLoop3D_gameOver)

lemma frame2D_gameOver_mono: "gameOver2D s \<Longrightarrow> gameOver2D (fst (frame2D keys rnd s))"
  by (simp add: frame2D_def gameLoop2D_gameOver)

lemma run3D_events:
  assumes "gameOver s \<longrightarrow> \<not> isPlaying s"
  shows "snd (run3D is s) =
     (if gameOver (fst (run3D is s)) \<and> \<not> gameOver s
      then [(score (fst (run3D is s)), time (fst (run3D is s)))] else [])
     \<and> (gameOver (fst (run3D is s)) \<longrightarrow> \<not> isPlaying (fst (run3D is s)))"
  using assms
proof (induction "is" arbitrary: s)
  case Nil
  then show ?case by simp
next
  case (Cons i "is")
  let ?s' = "fst (frame3D (held i) (random i) s)"
  have inv': "gameOver ?s' \<longrightarrow> \<not> isPlaying ?s'"
    using Cons.prems by (rule frame3D_ended_invariant)
  note IH = Cons.IH [OF inv']
  have ev: "snd (frame3D (held i) (random i) s) =
     (if gameOver ?s' \<and> \<not> gameOver s then Some (score ?s', time ?s') else None)"
    using Cons.prems by (rule frame3D_event)
  show ?case
  proof (cases "gameOver ?s'")
    case True
    then have "run3D is ?s' = (?s', [])" using inv' by (simp add: run3D_idle)
    then show ?thesis using True ev inv'
      by (simp add: run3D_Cons_fst run3D_Cons_snd del: run3D.simps)
  next
    case False
    then have "\<not> gameOver s" using frame3D_gameOver_mono by blast
    then show ?thesis using False ev IH
      by (simp add: run3D_Cons_fst run3D_Cons_snd del: run3D.simps)
  qed
qed

lemma run2D_events:
  assumes "gameOver2D s \<longrightarrow> \<not> isPlaying2D s"
  shows "snd (run2D is s) =
     (if gameOver2D (fst (run2D is s)) \<and> \<not> gameOver2D s
      then [(score2D (fst (run2D is s)), time2D (fst (run2D is s)))] else [])
     \<and> (gameOver2D (fst (run2D is s)) \<longrightarrow> \<not> isPlaying2D (fst (run2D is s)))"
  using assms
proof (induction "is" arbitrary: s)
  case Nil
  then show ?case by simp
next
  case (Cons i "is")
  let ?s' = "fst (frame2D (held2D i) (random2D i) s)"
  have inv': "gameOver2D ?s' \<longrightarrow> \<not> isPlaying2D ?s'"
    using Cons.prems by (rule frame2D_ended_invariant)
  note IH = Cons.IH [OF inv']
  have ev: "snd (frame2D (held2D i) (random2D i) s) =
     (if gameOver2D ?s' \<and> \<not> gameOver2D s then Some (score2D ?s', time2D ?s') else None)"
    using Cons.prems by (rule frame2D_event)
  show ?case
  proof (cases "gameOver2D ?s'")
    case True
    then have "run2D is ?s' = (?s', [])" using inv' by (simp add: run2D_idle)
    then show ?thesis using True ev inv'
      by (simp add: run2D_Cons_fst run2D_Cons_snd del: run2D.simps)
  next
    case False
    then have "\<not> gameOver2D s" using frame2D_gameOver_mono by blast
    then show ?thesis using False ev IH
      by (simp add: run2D_Cons_fst run2D_Cons_snd del: run2D.simps)
  qed
qed

lemma run3D_after_end:
  assumes "\<not> gameOver s" and "gameOver (fst (run3D is s))"
  shows "run3D (is @ js) s = run3D is s"
proof -
  have "\<not> isPlaying (fst (run3D is s))"
    using run3D_events [of s "is"] assms by simp
  then have "run3D js (fst (run3D is s)) = (fst (run3D is s), [])"
    by (simp add: run3D_idle)
  then show ?thesis by (simp add: run3D_append)
qed

lemma run2D_after_end:
  assumes "\<not> gameOver2D s" and "gameOver2D (fst (run2D is s))"
  shows "run2D (is @ js) s = run2D is s"
proof -
  have "\<not> isPlaying2D (fst (run2D is s))"
    using run2D_events [of s "is"] assms by simp
  then have "run2D js (fst (run2D is s)) = (fst (run2D is s), [])"
    by (simp add: run2D_idle)
  then show ?thesis by (simp add: run2D_append)
qed

lemma session3D_append:
  "session3D (es @ fs) ss =
     (fst (session3D fs (fst (session3D es ss))),
      snd (session3D es ss) @ snd (session3D fs (fst (session3D es ss))))"
proof (induction es ss rule: session3D.induct)
  case (1 ss)
  show ?case by simp
next
  case (2 es ss)
  then show ?case by simp
next
  case (3 i es ss)
  then show ?case by simp
next
  case (4 i es ss)
  show ?case
    using "4.IH" [of "frame3D (held i) (random i) (game ss)"
        "fst (frame3D (held i) (random i) (game ss))" "snd (frame3D (held i) (random i) (game ss))"]
    by (simp add: split_beta Let_def)
qed

section \<open>C1: frames on an ended session\<close>

text \<open>
  What the frames alone guarantee: a frame changes nothing while \<open>isPlaying\<close> is false or
  \<open>isPaused\<close> is true, and a frame that ends a session clears \<open>isPlaying\<close>, so the frames
  that follow it directly change nothing. The guard reads neither \<open>gameOver\<close> nor anything
  else, and the last tick of a countdown sets \<open>isPlaying\<close> whatever \<open>gameOver\<close> is.
\<close>

lemma frames_outside_play:
  "(\<not> isPlaying s \<or> isPaused s \<longrightarrow> frame3D keys rnd s = (s, None))
   \<and> (\<not> gameOver s \<and> gameOver (fst (frame3D keys rnd s)) \<longrightarrow>
        frame3D keys' rnd' (fst (frame3D keys rnd s)) = (fst (frame3D keys rnd s), None))
   \<and> (\<not> isPlaying2D t \<or> isPaused2D t \<longrightarrow> frame2D keys rnd2 t = (t, None))
   \<and> (\<not> gameOver2D t \<and> gameOver2D (fst (frame2D keys rnd2 t)) \<longrightarrow>
        frame2D keys' rnd2' (fst (frame2D keys rnd2 t)) = (fst (frame2D keys rnd2 t), None))"
proof -
  have "frame3D keys' rnd' (fst (frame3D keys rnd s)) = (fst (frame3D keys rnd s), None)"
    if "\<not> gameOver s" "gameOver (fst (frame3D keys rnd s))"
  proof -
    have "\<not> isPlaying (fst (frame3D keys rnd s))"
      using frame3D_ended_invariant [of s keys rnd] that by simp
    then show ?thesis by (simp add: frame3D_idle)
  qed
  moreover have "frame2D keys' rnd2' (fst (frame2D keys rnd2 t)) = (fst (frame2D keys rnd2 t), None)"
    if "\<not> gameOver2D t" "gameOver2D (fst (frame2D keys rnd2 t))"
  proof -
    have "\<not> isPlaying2D (fst (frame2D keys rnd2 t))"
      using frame2D_ended_invariant [of t keys rnd2] that by simp
    then show ?thesis by (simp add: frame2D_idle)
  qed
  ultimately show ?thesis
    using frame3D_idle [of s keys rnd] frame2D_idle [of t keys rnd2] by blast
qed

lemma countdownDone3D_flags:
  "isPlaying (countdownDone3D s) \<and> gameOver (countdownDone3D s) = gameOver s
   \<and> isPaused (countdownDone3D s) = isPaused s"
  by (simp add: countdownDone3D_def)

lemma gameLoop3D_notifies_again: "gameOver s \<Longrightarrow> snd (gameLoop3D keys rnd s) \<noteq> None"
  by (simp add: gameLoop3D_event gameLoop3D_gameOver)

lemma gameLoop2D_notifies_again: "gameOver2D s \<Longrightarrow> snd (gameLoop2D keys rnd s) \<noteq> None"
  by (simp add: gameLoop2D_event gameLoop2D_gameOver)

lemma crashed_lifecycle: "lifecycle crashed = (False, False, True, 100, [0])"
  unfolding crashed_def by code_simp

lemma revived_lifecycle: "lifecycle revived = (True, False, True, 100, [])"
  unfolding revived_def by code_simp

lemma revived_next_frame:
  "lifecycle (fst (session3D [Frame coast] revived)) = (False, False, True, 150, [])"
  unfolding revived_def by code_simp

text \<open>
  C1 fails on the code. In the session \<open>revived\<close> Space was pressed twice during the
  countdown; the crash on the second frame ended the session (\<open>gameOver\<close> true, \<open>isPlaying\<close>
  false, score 100), and the last tick of the second countdown then set \<open>isPlaying\<close> again.
  The next frame is applied to a state whose \<open>gameOver\<close> is true and changes it: the score
  goes from 100 to 150.
\<close>

theorem C1_ended_session_advances:
  "gameOver (game crashed) \<and> \<not> isPlaying (game crashed) \<and> score (game crashed) = 100
   \<and> revived = countdownTick 0 crashed
   \<and> gameOver (game revived) \<and> isPlaying (game revived) \<and> \<not> isPaused (game revived)
   \<and> score (game revived) = 100
   \<and> score (fst (frame3D (held coast) (random coast) (game revived))) = 150
   \<and> fst (frame3D (held coast) (random coast) (game revived)) \<noteq> game revived"
proof -
  have c: "gameOver (game crashed)" "\<not> isPlaying (game crashed)" "score (game crashed) = 100"
    using crashed_lifecycle by (simp_all add: lifecycle_def)
  have r: "gameOver (game revived)" "isPlaying (game revived)" "\<not> isPaused (game revived)"
    "score (game revived) = 100"
    using revived_lifecycle by (simp_all add: lifecycle_def)
  have "twoCountdowns @ [Frame coast, Frame coast, Tick 0]
      = (twoCountdowns @ [Frame coast, Frame coast]) @ [Tick 0]"
    by simp
  then have t: "revived = countdownTick 0 crashed"
    unfolding revived_def crashed_def by (simp only: session3D_append session3D.simps fst_conv)
  have n: "score (fst (frame3D (held coast) (random coast) (game revived))) = 150"
    using revived_next_frame by (simp add: lifecycle_def split_beta Let_def)
  then have "fst (frame3D (held coast) (random coast) (game revived)) \<noteq> game revived"
    using r(4) by auto
  then show ?thesis using c r t n by simp
qed

theorem C1_ended_session_advances_witness:
  "gameOver (game revived)
   \<and> score (game revived) < score (fst (frame3D (held coast) (random coast) (game revived)))"
  using C1_ended_session_advances by simp

section \<open>C2: notifications of a session\<close>

text \<open>
  What the frames alone guarantee: along frames that follow one another with no countdown
  tick in between, from a state that has not ended, \<^verbatim>\<open>onGameEnd\<close> is called by the frame
  that sets \<open>gameOver\<close>, with the score and time of that state, and by no other frame.
\<close>

lemma frames_notify_once:
  assumes "\<not> gameOver s" and "\<not> gameOver2D t"
  shows
    "snd (run3D is s) =
       (if gameOver (fst (run3D is s))
        then [(score (fst (run3D is s)), time (fst (run3D is s)))] else [])
     \<and> (gameOver (fst (run3D is s)) \<longrightarrow> run3D (is @ js) s = run3D is s)
     \<and> snd (frame3D keys rnd s) =
       (if gameOver (fst (frame3D keys rnd s))
        then Some (score (fst (frame3D keys rnd s)), time (fst (frame3D keys rnd s))) else None)
     \<and> snd (run2D is2 t) =
       (if gameOver2D (fst (run2D is2 t))
        then [(score2D (fst (run2D is2 t)), time2D (fst (run2D is2 t)))] else [])
     \<and> (gameOver2D (fst (run2D is2 t)) \<longrightarrow> run2D (is2 @ js2) t = run2D is2 t)
     \<and> snd (frame2D keys rnd2 t) =
       (if gameOver2D (fst (frame2D keys rnd2 t))
        then Some (score2D (fst (frame2D keys rnd2 t)), time2D (fst (frame2D keys rnd2 t))) else None)"
proof -
  have a: "snd (run3D is s) =
       (if gameOver (fst (run3D is s))
        then [(score (fst (run3D is s)), time (fst (run3D is s)))] else [])"
    using run3D_events [of s "is"] assms(1) by simp
  have b: "gameOver (fst (run3D is s)) \<longrightarrow> run3D (is @ js) s = run3D is s"
    using run3D_after_end [of s "is" js] assms(1) by simp
  have c: "snd (frame3D keys rnd s) =
       (if gameOver (fst (frame3D keys rnd s))
        then Some (score (fst (frame3D keys rnd s)), time (fst (frame3D keys rnd s))) else None)"
    using frame3D_event [of s keys rnd] assms(1) by simp
  have a2: "snd (run2D is2 t) =
       (if gameOver2D (fst (run2D is2 t))
        then [(score2D (fst (run2D is2 t)), time2D (fst (run2D is2 t)))] else [])"
    using run2D_events [of t is2] assms(2) by simp
  have b2: "gameOver2D (fst (run2D is2 t)) \<longrightarrow> run2D (is2 @ js2) t = run2D is2 t"
    using run2D_after_end [of t is2 js2] assms(2) by simp
  have c2: "snd (frame2D keys rnd2 t) =
       (if gameOver2D (fst (frame2D keys rnd2 t))
        then Some (score2D (fst (frame2D keys rnd2 t)), time2D (fst (frame2D keys rnd2 t))) else None)"
    using frame2D_event [of t keys rnd2] assms(2) by simp
  from a b c a2 b2 c2 show ?thesis by blast
qed

lemma crash_notifications:
  "map fst (snd (session3D (twoCountdowns @ [Frame coast, Frame coast]) freshSession)) = [100]"
  by code_simp

lemma doubleStart_notifications:
  "map fst (snd (session3D doubleStart freshSession)) = [100, 150]"
  unfolding doubleStart_def by code_simp

text \<open>
  C2 fails on the code. The updater calls \<^verbatim>\<open>onGameEnd\<close> whenever the new state has
  \<open>gameOver\<close> set, not when it becomes set. In the session \<open>doubleStart\<close> Space is pressed
  twice during the countdown; the crash on the second frame ends the session and is
  notified with score 100; the last tick of the second countdown sets \<open>isPlaying\<close> again,
  and the next frame notifies a second time, with score 150.
\<close>

theorem C2_notified_twice:
  "map fst (snd (session3D (twoCountdowns @ [Frame coast, Frame coast]) freshSession)) = [100]
   \<and> gameOver (game crashed) \<and> \<not> isPlaying (game crashed)
   \<and> map fst (snd (session3D doubleStart freshSession)) = [100, 150]
   \<and> length (snd (session3D doubleStart freshSession)) = 2"
proof -
  have "gameOver (game crashed)" "\<not> isPlaying (game crashed)"
    using crashed_lifecycle by (simp_all add: lifecycle_def)
  moreover have "length (snd (session3D doubleStart freshSession)) = 2"
    using doubleStart_notifications [THEN arg_cong, of length] by simp
  ultimately show ?thesis
    using crash_notifications doubleStart_notifications by simp
qed

theorem C2_notified_twice_witness:
  "1 < length (snd (session3D doubleStart freshSession))"
  using C2_notified_twice by simp

section \<open>C3: collisions and health\<close>

lemma hitCount3D_idle: "\<not> isPlaying s \<or> isPaused s \<Longrightarrow> hitCount3D is s = 0"
  by (induction "is") (auto simp add: frame3D_idle)

lemma health_run:
  assumes "mode s = competition" and "isPlaying s" and "\<not> isPaused s" and "\<not> gameOver s"
    and "0 < health s" and "time s + real (length is) / 60 < 120"
  shows "health (fst (run3D is s)) = max (health s - 10 * real (hitCount3D is s)) 0
         \<and> (gameOver (fst (run3D is s)) \<longleftrightarrow> health s \<le> 10 * real (hitCount3D is s))"
  using assms
proof (induction "is" arbitrary: s)
  case Nil
  then show ?case by simp
next
  case (Cons i "is")
  let ?k = "held i" and ?r = "random i"
  let ?s' = "fst (gameLoop3D ?k ?r s)"
  have fr: "frame3D ?k ?r s = gameLoop3D ?k ?r s"
    using Cons.prems by (simp add: frame3D_playing)
  have tm: "time s + 1 / 60 < 120" "time ?s' + real (length is) / 60 < 120"
    using Cons.prems(6) by (simp_all add: gameLoop3D_time add_divide_distrib)
  have md: "mode ?s' = competition" "\<not> isPaused ?s'"
    using Cons.prems by (simp_all add: gameLoop3D_mode gameLoop3D_isPaused)
  show ?case
  proof (cases "hits3D ?k ?r s")
    case False
    have "health ?s' = health s" "isPlaying ?s'" "\<not> gameOver ?s'"
      using False Cons.prems tm(1)
      by (simp_all add: gameLoop3D_health gameLoop3D_isPlaying gameLoop3D_gameOver)
    then show ?thesis
      using Cons.IH [of ?s'] md tm(2) Cons.prems(5) False Cons.prems(2,3) fr
      by (simp add: run3D_Cons_fst del: run3D.simps)
  next
    case hit: True
    show ?thesis
    proof (cases "health s \<le> 10")
      case True
      have "health ?s' = 0" "\<not> isPlaying ?s'" "gameOver ?s'"
        using hit True Cons.prems tm(1)
        by (simp_all add: gameLoop3D_health gameLoop3D_isPlaying gameLoop3D_gameOver)
      moreover from this have "run3D is ?s' = (?s', [])" "hitCount3D is ?s' = 0"
        by (simp_all add: run3D_idle hitCount3D_idle)
      ultimately show ?thesis
        using hit True Cons.prems(2,3) fr
        by (simp add: run3D_Cons_fst del: run3D.simps)
    next
      case False
      have h': "health ?s' = health s - 10" "isPlaying ?s'" "\<not> gameOver ?s'"
        using hit False Cons.prems tm(1)
        by (simp_all add: gameLoop3D_health gameLoop3D_isPlaying gameLoop3D_gameOver)
      have pos: "0 < health ?s'" using h'(1) False by simp
      note IH = Cons.IH [OF md(1) h'(2) md(2) h'(3) pos tm(2)]
      have cnt: "real (hitCount3D (i # is) s) = 1 + real (hitCount3D is ?s')"
        using hit Cons.prems(2,3) fr by simp
      have run: "fst (run3D (i # is) s) = fst (run3D is ?s')"
        using fr by (simp add: run3D_Cons_fst del: run3D.simps)
      have "health s - 10 * (1 + real (hitCount3D is ?s')) = health ?s' - 10 * real (hitCount3D is ?s')"
        using h'(1) by (simp add: algebra_simps)
      moreover have "health s \<le> 10 * (1 + real (hitCount3D is ?s'))
          \<longleftrightarrow> health ?s' \<le> 10 * real (hitCount3D is ?s')"
        unfolding h'(1) by argo
      ultimately show ?thesis
        unfolding run cnt using IH by simp
    qed
  qed
qed

text \<open>
  C3: in a mode with health (only the 3D game has health, and there only competition), a
  frame that detects a collision takes exactly 10 points of health, not below 0, and ends
  the session only if health has reached 0 (or the time limit is reached); from health 100
  the tenth collision frame of a run gives health 0 and ends the session, while after nine
  of them health is 10 and the session goes on. In a mode without health, and in every mode
  of the 2D game, the first collision frame ends the session.
\<close>

theorem C3_collision_resolution:
  assumes "isPlaying s" and "\<not> isPaused s"
  shows
    "(hasHealth (getModeConfig (mode s)) \<and> hits3D keys rnd s \<longrightarrow>
        health (fst (frame3D keys rnd s)) = max (health s - 10) 0
        \<and> (gameOver (fst (frame3D keys rnd s)) \<longleftrightarrow> gameOver s \<or> health s \<le> 10 \<or> timeUp3D s))
     \<and> (hasHealth (getModeConfig (mode s)) \<and> \<not> hits3D keys rnd s \<longrightarrow>
        health (fst (frame3D keys rnd s)) = health s)
     \<and> (\<not> hasHealth (getModeConfig (mode s)) \<and> hits3D keys rnd s \<longrightarrow>
        gameOver (fst (frame3D keys rnd s)))
     \<and> (mode s = competition \<and> \<not> gameOver s \<and> health s = 100
          \<and> time s + real (length is) / 60 < 120 \<longrightarrow>
        health (fst (run3D is s)) = max (100 - 10 * real (hitCount3D is s)) 0
        \<and> (gameOver (fst (run3D is s)) \<longleftrightarrow> 10 \<le> hitCount3D is s)
        \<and> (hitCount3D is s = 10 \<longrightarrow>
             health (fst (run3D is s)) = 0 \<and> gameOver (fst (run3D is s)))
        \<and> (hitCount3D is s = 9 \<longrightarrow>
             health (fst (run3D is s)) = 10 \<and> \<not> gameOver (fst (run3D is s))))
     \<and> (isPlaying2D t \<and> \<not> isPaused2D t \<and> hits2D keys rnd2 t \<longrightarrow>
        gameOver2D (fst (frame2D keys rnd2 t)))"
proof -
  have fr: "frame3D keys rnd s = gameLoop3D keys rnd s"
    using assms by (simp add: frame3D_playing)
  have a: "hasHealth (getModeConfig (mode s)) \<and> hits3D keys rnd s \<longrightarrow>
        health (fst (frame3D keys rnd s)) = max (health s - 10) 0
        \<and> (gameOver (fst (frame3D keys rnd s)) \<longleftrightarrow> gameOver s \<or> health s \<le> 10 \<or> timeUp3D s)"
    by (simp add: fr gameLoop3D_health gameLoop3D_gameOver timeUp3D_def)
  have b: "hasHealth (getModeConfig (mode s)) \<and> \<not> hits3D keys rnd s \<longrightarrow>
        health (fst (frame3D keys rnd s)) = health s"
    by (simp add: fr gameLoop3D_health)
  have c: "\<not> hasHealth (getModeConfig (mode s)) \<and> hits3D keys rnd s \<longrightarrow>
        gameOver (fst (frame3D keys rnd s))"
    by (simp add: fr gameLoop3D_gameOver)
  have d: "health (fst (run3D is s)) = max (100 - 10 * real (hitCount3D is s)) 0
        \<and> (gameOver (fst (run3D is s)) \<longleftrightarrow> 10 \<le> hitCount3D is s)
        \<and> (hitCount3D is s = 10 \<longrightarrow>
             health (fst (run3D is s)) = 0 \<and> gameOver (fst (run3D is s)))
        \<and> (hitCount3D is s = 9 \<longrightarrow>
             health (fst (run3D is s)) = 10 \<and> \<not> gameOver (fst (run3D is s)))"
    if h: "mode s = competition" "\<not> gameOver s" "health s = 100"
      "time s + real (length is) / 60 < 120"
  proof -
    have r: "health (fst (run3D is s)) = max (100 - 10 * real (hitCount3D is s)) 0"
      "gameOver (fst (run3D is s)) \<longleftrightarrow> 100 \<le> 10 * real (hitCount3D is s)"
      using health_run [of s "is"] h assms by simp_all
    have "100 \<le> 10 * real (hitCount3D is s) \<longleftrightarrow> 10 \<le> hitCount3D is s"
      by linarith
    then show ?thesis using r by auto
  qed
  have e: "isPlaying2D t \<and> \<not> isPaused2D t \<and> hits2D keys rnd2 t \<longrightarrow>
        gameOver2D (fst (frame2D keys rnd2 t))"
    by (simp add: frame2D_def gameLoop2D_gameOver)
  from a b c d e show ?thesis by blast
qed

theorem C3_collision_resolution_witness:
  "isPlaying (jammed competition) \<and> \<not> isPaused (jammed competition)
   \<and> hasHealth (getModeConfig (mode (jammed competition)))
   \<and> hits3D {} (\<lambda>_. quietDraws) (jammed competition)
   \<and> health (fst (frame3D {} (\<lambda>_. quietDraws) (jammed competition))) = 90
   \<and> hitCount3D (replicate 10 coast) (jammed competition) = 10
   \<and> health (fst (run3D (replicate 10 coast) (jammed competition))) = 0
   \<and> gameOver (fst (run3D (replicate 10 coast) (jammed competition)))
   \<and> hitCount3D (replicate 9 coast) (jammed competition) = 9
   \<and> health (fst (run3D (replicate 9 coast) (jammed competition))) = 10
   \<and> \<not> gameOver (fst (run3D (replicate 9 coast) (jammed competition)))
   \<and> isPlaying (jammed classic) \<and> \<not> isPaused (jammed classic)
   \<and> \<not> hasHealth (getModeConfig (mode (jammed classic)))
   \<and> hits3D {} (\<lambda>_. quietDraws) (jammed classic)
   \<and> gameOver (fst (frame3D {} (\<lambda>_. quietDraws) (jammed classic)))
   \<and> isPlaying2D (jammed2D competition) \<and> \<not> isPaused2D (jammed2D competition)
   \<and> hits2D {} (\<lambda>_. quietDraws2D) (jammed2D competition)
   \<and> gameOver2D (fst (frame2D {} (\<lambda>_. quietDraws2D) (jammed2D competition)))
   \<and> isPlaying (emptyRoad competition 0) \<and> \<not> isPaused (emptyRoad competition 0)
   \<and> hasHealth (getModeConfig (mode (emptyRoad competition 0)))
   \<and> \<not> hits3D {} (\<lambda>_. quietDraws) (emptyRoad competition 0)
   \<and> health (fst (frame3D {} (\<lambda>_. quietDraws) (emptyRoad competition 0))) = 100"
proof -
  have q: "isPlaying (emptyRoad competition 0)" "\<not> isPaused (emptyRoad competition 0)"
    "mode (emptyRoad competition 0) = competition" "health (emptyRoad competition 0) = 100"
    by (simp_all add: emptyRoad_def)
  have nh: "\<not> hits3D {} (\<lambda>_. quietDraws) (emptyRoad competition 0)"
    by (simp add: hits3D_def emptyRoad_def updateEnemies_def collisionDetected_def enumerate_eq_zip)
  have p: "isPlaying (jammed m)" "\<not> isPaused (jammed m)" "mode (jammed m) = m"
    "\<not> gameOver (jammed m)" "health (jammed m) = 100" "time (jammed m) = 0"
    "isPlaying2D (jammed2D m)" "\<not> isPaused2D (jammed2D m)" for m
    by (simp_all add: jammed_def jammed2D_def emptyRoad_def emptyRoad2D_def)
  have h: "hits3D {} (\<lambda>_. quietDraws) (jammed m)" for m
    by (simp add: hits3D_def jammed_def emptyRoad_def parked_def quietDraws_def steer_def
          updateEnemies_def updateEnemy_def truthy_def blocks_def collisionDetected_def
          overlaps_def enumerate_eq_zip Let_def)
  have h2: "hits2D {} (\<lambda>_. quietDraws2D) (jammed2D m)" for m
    by (simp add: hits2D_def jammed2D_def emptyRoad2D_def parked2D_def quietDraws2D_def
          steer2D_def throttle2D_def updateEnemies2D_def updateEnemy2D_def
          collisionDetected2D_def overlaps2D_def GAME_HEIGHT_def enumerate_eq_zip Let_def)
  have c10: "hitCount3D (replicate 10 coast) (jammed competition) = 10"
    by code_simp
  have c9: "hitCount3D (replicate 9 coast) (jammed competition) = 9"
    by code_simp
  show ?thesis
    using p [of competition] p [of classic] h [of competition] h [of classic] h2 [of competition] c10 c9
      C3_collision_resolution [OF p(1,2), of competition "{}" "\<lambda>_. quietDraws"
        "replicate 10 coast" "jammed2D competition" "\<lambda>_. quietDraws2D"]
      C3_collision_resolution [OF p(1,2), of competition "{}" "\<lambda>_. quietDraws"
        "replicate 9 coast" "jammed2D competition" "\<lambda>_. quietDraws2D"]
      C3_collision_resolution [OF p(1,2), of classic "{}" "\<lambda>_. quietDraws"
        "[]" "jammed2D competition" "\<lambda>_. quietDraws2D"]
      q nh
      C3_collision_resolution [OF q(1,2), of "{}" "\<lambda>_. quietDraws"
        "[]" "jammed2D competition" "\<lambda>_. quietDraws2D"]
    by simp
qed

section \<open>C4: speed bounds\<close>

lemma maxSpeed_ge: "12 \<le> maxSpeed (getModeConfig m)"
  by (cases m) simp_all

lemma throttle_lower: "2 \<le> v \<Longrightarrow> 2 \<le> throttle keys (getModeConfig m) v"
  using maxSpeed_ge [of m] by (auto simp add: throttle_def le_max_iff_disj)

lemma throttle_upper:
  "throttle keys (getModeConfig m) v \<le> max (maxSpeed (getModeConfig m)) (v - 0.1)"
  using maxSpeed_ge [of m] by (auto simp add: throttle_def le_max_iff_disj min_le_iff_disj)

lemma boosted_lower: "2 \<le> speed s \<Longrightarrow> 2 \<le> boosted keys (getModeConfig m) s"
  using throttle_lower [of "speed s" keys m] maxSpeed_ge [of m] by (simp add: boosted_def)

lemma boosted_upper:
  "speed s \<le> maxSpeed (getModeConfig m) + (if hasNitro (getModeConfig m) then 5 else 0)
   \<Longrightarrow> boosted keys (getModeConfig m) s
        \<le> maxSpeed (getModeConfig m) + (if hasNitro (getModeConfig m) then 5 else 0)"
  using throttle_upper [of keys m "speed s"]
  by (auto simp add: boosted_def usesNitro_def)

lemma throttle2D_bounds:
  "(0 \<le> v \<longrightarrow> 0 \<le> throttle2D keys v) \<and> (v \<le> 15 \<longrightarrow> throttle2D keys v \<le> 15)"
  by (auto simp add: throttle2D_def le_max_iff_disj min_le_iff_disj)

lemma frame3D_speed_bounds:
  assumes "2 \<le> speed s"
    and "speed s \<le> maxSpeed (getModeConfig (mode s)) + (if hasNitro (getModeConfig (mode s)) then 5 else 0)"
  shows "2 \<le> speed (fst (frame3D keys rnd s))
    \<and> speed (fst (frame3D keys rnd s))
        \<le> maxSpeed (getModeConfig (mode (fst (frame3D keys rnd s))))
           + (if hasNitro (getModeConfig (mode (fst (frame3D keys rnd s)))) then 5 else 0)"
proof (cases "\<not> isPlaying s \<or> isPaused s")
  case True
  then show ?thesis using assms by (simp add: frame3D_idle)
next
  case False
  then have "frame3D keys rnd s = gameLoop3D keys rnd s" by (simp add: frame3D_playing)
  then show ?thesis
    using boosted_lower [OF assms(1), of keys "mode s"] boosted_upper [OF assms(2), of keys]
    by (simp add: gameLoop3D_speed gameLoop3D_mode)
qed

lemma run3D_speed_bounds:
  assumes "2 \<le> speed s"
    and "speed s \<le> maxSpeed (getModeConfig (mode s)) + (if hasNitro (getModeConfig (mode s)) then 5 else 0)"
  shows "2 \<le> speed (fst (run3D is s))
    \<and> speed (fst (run3D is s))
        \<le> maxSpeed (getModeConfig (mode (fst (run3D is s))))
           + (if hasNitro (getModeConfig (mode (fst (run3D is s)))) then 5 else 0)"
  using assms
proof (induction "is" arbitrary: s)
  case Nil
  then show ?case by simp
next
  case (Cons i "is")
  have "2 \<le> speed (fst (frame3D (held i) (random i) s))
    \<and> speed (fst (frame3D (held i) (random i) s))
        \<le> maxSpeed (getModeConfig (mode (fst (frame3D (held i) (random i) s))))
           + (if hasNitro (getModeConfig (mode (fst (frame3D (held i) (random i) s)))) then 5 else 0)"
    using Cons.prems by (rule frame3D_speed_bounds)
  then show ?case
    using Cons.IH [of "fst (frame3D (held i) (random i) s)"]
    by (simp only: run3D_Cons_fst)
qed

lemma frame2D_speed_bounds:
  assumes "0 \<le> speed2D t" and "speed2D t \<le> 15"
  shows "0 \<le> speed2D (fst (frame2D keys rnd t)) \<and> speed2D (fst (frame2D keys rnd t)) \<le> 15"
  using assms throttle2D_bounds [of "speed2D t" keys]
  by (simp add: frame2D_def gameLoop2D_speed)

lemma run2D_speed_bounds:
  assumes "0 \<le> speed2D t" and "speed2D t \<le> 15"
  shows "0 \<le> speed2D (fst (run2D is t)) \<and> speed2D (fst (run2D is t)) \<le> 15"
  using assms
proof (induction "is" arbitrary: t)
  case Nil
  then show ?case by simp
next
  case (Cons i "is")
  have "0 \<le> speed2D (fst (frame2D (held2D i) (random2D i) t))
      \<and> speed2D (fst (frame2D (held2D i) (random2D i) t)) \<le> 15"
    using Cons.prems by (rule frame2D_speed_bounds)
  then show ?case
    using Cons.IH [of "fst (frame2D (held2D i) (random2D i) t)"]
    by (simp only: run2D_Cons_fst)
qed

lemma run3D_mode: "mode (fst (run3D is s)) = mode s"
proof (induction "is" arbitrary: s)
  case Nil
  show ?case by simp
next
  case (Cons i "is")
  have "mode (fst (frame3D (held i) (random i) s)) = mode s"
    by (simp add: frame3D_def gameLoop3D_mode)
  then show ?case using Cons.IH [of "fst (frame3D (held i) (random i) s)"]
    by (simp only: run3D_Cons_fst)
qed

lemma boostedSession_summary:
  "summary boostedSession = (competition, True, False, False, 20.4, 93, 15)"
  unfolding boostedSession_def by code_simp

text \<open>
  Counterexample to C4 as stated, on a state reached from \<^verbatim>\<open>initGame\<close> in competition
  mode: after 14 frames with accelerate and nitro held the speed is 20.4; on the next frame
  no key is held, so nitro is not active, and the speed is 20.3, above the mode maximum 20.
\<close>

theorem C4_counterexample:
  "isPlaying boostedSession \<and> \<not> isPaused boostedSession \<and> mode boostedSession = competition
   \<and> \<not> usesNitro {} (getModeConfig competition) boostedSession
   \<and> maxSpeed (getModeConfig competition) = 20
   \<and> speed (fst (frame3D {} (\<lambda>_. quietDraws) boostedSession)) = 20.3"
proof -
  have f: "mode boostedSession = competition" "isPlaying boostedSession"
    "\<not> isPaused boostedSession" "speed boostedSession = 20.4"
    using boostedSession_summary by (simp_all add: summary_def)
  have "speed (fst (frame3D {} (\<lambda>_. quietDraws) boostedSession)) = 20.3"
    using f by (simp add: frame3D_playing gameLoop3D_speed boosted_def usesNitro_def throttle_def)
  then show ?thesis using f by (simp add: usesNitro_def)
qed

text \<open>
  C4, amended: along every run of frames the speed of the 3D game stays within
  \<open>[2, modeMax]\<close> in the modes without nitro and within \<open>[2, modeMax + 5]\<close> in the mode
  with nitro, whether or not nitro is active on the step; on a step where nitro is active
  it is at most \<open>modeMax + 5\<close>; on a step where nitro is not active it is at most the
  larger of \<open>modeMax\<close> and the previous speed less 0.1, hence at most \<open>modeMax\<close> if the
  previous speed was. The speed of the 2D game stays within \<open>[0, 15]\<close>.
\<close>

theorem C4_speed_bounds:
  "(2 \<le> speed s
      \<and> speed s \<le> maxSpeed (getModeConfig (mode s)) + (if hasNitro (getModeConfig (mode s)) then 5 else 0)
     \<longrightarrow> 2 \<le> speed (fst (run3D is s))
      \<and> speed (fst (run3D is s))
          \<le> maxSpeed (getModeConfig (mode s)) + (if hasNitro (getModeConfig (mode s)) then 5 else 0))
   \<and> (isPlaying s \<and> \<not> isPaused s \<and> usesNitro keys (getModeConfig (mode s)) s
     \<longrightarrow> speed (fst (frame3D keys rnd s)) \<le> maxSpeed (getModeConfig (mode s)) + 5)
   \<and> (isPlaying s \<and> \<not> isPaused s \<and> \<not> usesNitro keys (getModeConfig (mode s)) s
     \<longrightarrow> speed (fst (frame3D keys rnd s)) \<le> max (maxSpeed (getModeConfig (mode s))) (speed s - 0.1))
   \<and> (isPlaying s \<and> \<not> isPaused s \<and> \<not> usesNitro keys (getModeConfig (mode s)) s
        \<and> speed s \<le> maxSpeed (getModeConfig (mode s))
     \<longrightarrow> speed (fst (frame3D keys rnd s)) \<le> maxSpeed (getModeConfig (mode s)))
   \<and> (0 \<le> speed2D t \<and> speed2D t \<le> 15
     \<longrightarrow> 0 \<le> speed2D (fst (run2D is2 t)) \<and> speed2D (fst (run2D is2 t)) \<le> 15)"
proof -
  have a: "2 \<le> speed (fst (run3D is s))
      \<and> speed (fst (run3D is s))
          \<le> maxSpeed (getModeConfig (mode s)) + (if hasNitro (getModeConfig (mode s)) then 5 else 0)"
    if "2 \<le> speed s"
      "speed s \<le> maxSpeed (getModeConfig (mode s)) + (if hasNitro (getModeConfig (mode s)) then 5 else 0)"
    using run3D_speed_bounds [OF that, of "is"] by (simp only: run3D_mode)
  have b: "speed (fst (frame3D keys rnd s)) \<le> maxSpeed (getModeConfig (mode s)) + 5"
    if "isPlaying s" "\<not> isPaused s" "usesNitro keys (getModeConfig (mode s)) s"
    using that by (simp add: frame3D_playing gameLoop3D_speed boosted_def)
  have c: "speed (fst (frame3D keys rnd s)) \<le> max (maxSpeed (getModeConfig (mode s))) (speed s - 0.1)"
    if "isPlaying s" "\<not> isPaused s" "\<not> usesNitro keys (getModeConfig (mode s)) s"
    using that throttle_upper [of keys "mode s" "speed s"]
    by (simp add: frame3D_playing gameLoop3D_speed boosted_def)
  have d: "speed (fst (frame3D keys rnd s)) \<le> maxSpeed (getModeConfig (mode s))"
    if "isPlaying s" "\<not> isPaused s" "\<not> usesNitro keys (getModeConfig (mode s)) s"
      "speed s \<le> maxSpeed (getModeConfig (mode s))"
    using c [OF that(1,2,3)] that(4) by linarith
  have e: "0 \<le> speed2D (fst (run2D is2 t)) \<and> speed2D (fst (run2D is2 t)) \<le> 15"
    if "0 \<le> speed2D t" "speed2D t \<le> 15"
    using that by (rule run2D_speed_bounds)
  from a b c d e show ?thesis by blast
qed

theorem C4_speed_bounds_witness:
  "2 \<le> speed (emptyRoad competition 0)
   \<and> speed (emptyRoad competition 0) \<le> maxSpeed (getModeConfig (mode (emptyRoad competition 0)))
   \<and> hasNitro (getModeConfig (mode (emptyRoad competition 0)))
   \<and> 2 \<le> speed (fst (run3D [boost, coast, boost] (emptyRoad competition 0)))
   \<and> speed (fst (run3D [boost, coast, boost] (emptyRoad competition 0))) \<le> 25
   \<and> isPlaying (emptyRoad competition 0) \<and> \<not> isPaused (emptyRoad competition 0)
   \<and> usesNitro {''ShiftLeft''} (getModeConfig (mode (emptyRoad competition 0))) (emptyRoad competition 0)
   \<and> speed (fst (frame3D {''ShiftLeft''} (\<lambda>_. quietDraws) (emptyRoad competition 0))) \<le> 25
   \<and> \<not> usesNitro {''ArrowUp''} (getModeConfig (mode (emptyRoad competition 0))) (emptyRoad competition 0)
   \<and> speed (fst (frame3D {''ArrowUp''} (\<lambda>_. quietDraws) (emptyRoad competition 0))) \<le> 20
   \<and> 0 \<le> speed2D (emptyRoad2D classic 0) \<and> speed2D (emptyRoad2D classic 0) \<le> 15
   \<and> 0 \<le> speed2D (fst (run2D [coast2D, coast2D] (emptyRoad2D classic 0)))
   \<and> speed2D (fst (run2D [coast2D, coast2D] (emptyRoad2D classic 0))) \<le> 15"
proof -
  have p: "speed (emptyRoad competition 0) = 5" "mode (emptyRoad competition 0) = competition"
    "isPlaying (emptyRoad competition 0)" "\<not> isPaused (emptyRoad competition 0)"
    "nitroBoost (emptyRoad competition 0) = 100" "speed2D (emptyRoad2D classic 0) = 5"
    by (simp_all add: emptyRoad_def emptyRoad2D_def)
  show ?thesis
    using p
      C4_speed_bounds [of "emptyRoad competition 0" "[boost, coast, boost]" "{''ShiftLeft''}"
        "\<lambda>_. quietDraws" "emptyRoad2D classic 0" "[coast2D, coast2D]"]
      C4_speed_bounds [of "emptyRoad competition 0" "[boost, coast, boost]" "{''ArrowUp''}"
        "\<lambda>_. quietDraws" "emptyRoad2D classic 0" "[coast2D, coast2D]"]
    by (simp add: usesNitro_def)
qed

section \<open>C5: the time limit of each mode\<close>

text \<open>
  C5: a frame that runs adds 1/60 to the elapsed time, and afterwards the session has ended
  exactly if it had ended before, or the frame's collision ended it, or the new elapsed time
  has reached the limit of the mode: 60 in timeAttack, 30 in quickRace, 90 in classic, 120
  in competition, and no time at all in endless. Both games.
\<close>

theorem C5_time_limits:
  "(isPlaying s \<and> \<not> isPaused s \<longrightarrow>
      time (fst (frame3D keys rnd s)) = time s + 1 / 60
      \<and> (gameOver (fst (frame3D keys rnd s)) \<longleftrightarrow>
           gameOver s
           \<or> (hits3D keys rnd s \<and> (hasHealth (getModeConfig (mode s)) \<longrightarrow> health s \<le> 10))
           \<or> (case mode s of
                 timeAttack \<Rightarrow> 60 \<le> time (fst (frame3D keys rnd s))
               | quickRace \<Rightarrow> 30 \<le> time (fst (frame3D keys rnd s))
               | classic \<Rightarrow> 90 \<le> time (fst (frame3D keys rnd s))
               | competition \<Rightarrow> 120 \<le> time (fst (frame3D keys rnd s))
               | endless \<Rightarrow> False)))
   \<and> (isPlaying2D t \<and> \<not> isPaused2D t \<longrightarrow>
      time2D (fst (frame2D keys rnd2 t)) = time2D t + 1 / 60
      \<and> (gameOver2D (fst (frame2D keys rnd2 t)) \<longleftrightarrow>
           gameOver2D t
           \<or> hits2D keys rnd2 t
           \<or> (case mode2D t of
                 timeAttack \<Rightarrow> 60 \<le> time2D (fst (frame2D keys rnd2 t))
               | quickRace \<Rightarrow> 30 \<le> time2D (fst (frame2D keys rnd2 t))
               | classic \<Rightarrow> 90 \<le> time2D (fst (frame2D keys rnd2 t))
               | competition \<Rightarrow> 120 \<le> time2D (fst (frame2D keys rnd2 t))
               | endless \<Rightarrow> False)))"
proof -
  have a: "(case timeLimit (getModeConfig m) of None \<Rightarrow> False | Some limit \<Rightarrow> limit \<le> u) =
       (case m of timeAttack \<Rightarrow> 60 \<le> u | quickRace \<Rightarrow> 30 \<le> u | classic \<Rightarrow> 90 \<le> u
        | competition \<Rightarrow> 120 \<le> u | endless \<Rightarrow> False)" for m and u :: real
    by (cases m) simp_all
  have b: "(case timeLimit2D (getModeConfig2D m) of None \<Rightarrow> False | Some limit \<Rightarrow> limit \<le> u) =
       (case m of timeAttack \<Rightarrow> 60 \<le> u | quickRace \<Rightarrow> 30 \<le> u | classic \<Rightarrow> 90 \<le> u
        | competition \<Rightarrow> 120 \<le> u | endless \<Rightarrow> False)" for m and u :: real
    by (cases m) simp_all
  show ?thesis
    by (simp add: frame3D_def frame2D_def gameLoop3D_time gameLoop2D_time
          gameLoop3D_gameOver gameLoop2D_gameOver a b cong: GameMode.case_cong)
qed

theorem C5_time_limits_witness:
  "isPlaying (emptyRoad timeAttack (60 - 1 / 60)) \<and> \<not> isPaused (emptyRoad timeAttack (60 - 1 / 60))
   \<and> time (fst (frame3D {} (\<lambda>_. quietDraws) (emptyRoad timeAttack (60 - 1 / 60)))) = 60
   \<and> gameOver (fst (frame3D {} (\<lambda>_. quietDraws) (emptyRoad timeAttack (60 - 1 / 60))))
   \<and> \<not> gameOver (fst (frame3D {} (\<lambda>_. quietDraws) (emptyRoad timeAttack (60 - 2 / 60))))
   \<and> \<not> gameOver (fst (frame3D {} (\<lambda>_. quietDraws) (emptyRoad endless 1000000)))
   \<and> isPlaying2D (emptyRoad2D quickRace (30 - 1 / 60)) \<and> \<not> isPaused2D (emptyRoad2D quickRace (30 - 1 / 60))
   \<and> time2D (fst (frame2D {} (\<lambda>_. quietDraws2D) (emptyRoad2D quickRace (30 - 1 / 60)))) = 30
   \<and> gameOver2D (fst (frame2D {} (\<lambda>_. quietDraws2D) (emptyRoad2D quickRace (30 - 1 / 60))))
   \<and> \<not> gameOver2D (fst (frame2D {} (\<lambda>_. quietDraws2D) (emptyRoad2D endless 1000000)))"
proof -
  have p: "isPlaying (emptyRoad m u)" "\<not> isPaused (emptyRoad m u)" "\<not> gameOver (emptyRoad m u)"
    "mode (emptyRoad m u) = m" "time (emptyRoad m u) = u"
    "isPlaying2D (emptyRoad2D m u)" "\<not> isPaused2D (emptyRoad2D m u)" "\<not> gameOver2D (emptyRoad2D m u)"
    "mode2D (emptyRoad2D m u) = m" "time2D (emptyRoad2D m u) = u" for m u
    by (simp_all add: emptyRoad_def emptyRoad2D_def)
  have h: "\<not> hits3D {} (\<lambda>_. quietDraws) (emptyRoad m u)"
    "\<not> hits2D {} (\<lambda>_. quietDraws2D) (emptyRoad2D m u)" for m u
    by (simp_all add: hits3D_def hits2D_def emptyRoad_def emptyRoad2D_def updateEnemies_def
          updateEnemies2D_def collisionDetected_def collisionDetected2D_def enumerate_eq_zip)
  show ?thesis
    using
      C5_time_limits [of "emptyRoad timeAttack (60 - 1 / 60)" "{}" "\<lambda>_. quietDraws"
        "emptyRoad2D quickRace (30 - 1 / 60)" "\<lambda>_. quietDraws2D"]
      C5_time_limits [of "emptyRoad timeAttack (60 - 2 / 60)" "{}" "\<lambda>_. quietDraws"
        "emptyRoad2D endless 1000000" "\<lambda>_. quietDraws2D"]
      C5_time_limits [of "emptyRoad endless 1000000" "{}" "\<lambda>_. quietDraws"
        "emptyRoad2D endless 1000000" "\<lambda>_. quietDraws2D"]
    by (simp add: p h)
qed

section \<open>C6: enemy recycling\<close>

lemma length_updateEnemies: "length (updateEnemies config px rnd es) = length es"
  by (simp add: updateEnemies_def)

lemma length_updateEnemies2D: "length (updateEnemies2D v rnd es) = length es"
  by (simp add: updateEnemies2D_def)

lemma nth_updateEnemies:
  "i < length es \<Longrightarrow> updateEnemies config px rnd es ! i = updateEnemy config px (rnd i) (es ! i)"
  by (simp add: updateEnemies_def nth_enumerate_eq)

lemma nth_updateEnemies2D:
  "i < length es \<Longrightarrow> updateEnemies2D v rnd es ! i = updateEnemy2D v (rnd i) (es ! i)"
  by (simp add: updateEnemies2D_def nth_enumerate_eq)

lemma frame3D_length_enemies: "length (enemies (fst (frame3D keys rnd s))) = length (enemies s)"
  by (simp add: frame3D_def gameLoop3D_enemies length_updateEnemies)

lemma frame2D_length_enemies: "length (enemies2D (fst (frame2D keys rnd s))) = length (enemies2D s)"
  by (simp add: frame2D_def gameLoop2D_enemies length_updateEnemies2D)

lemma run3D_length_enemies: "length (enemies (fst (run3D is s))) = length (enemies s)"
proof (induction "is" arbitrary: s)
  case Nil
  show ?case by simp
next
  case (Cons i "is")
  show ?case
    using Cons.IH [of "fst (frame3D (held i) (random i) s)"]
    by (simp only: run3D_Cons_fst frame3D_length_enemies)
qed

lemma run2D_length_enemies: "length (enemies2D (fst (run2D is s))) = length (enemies2D s)"
proof (induction "is" arbitrary: s)
  case Nil
  show ?case by simp
next
  case (Cons i "is")
  show ?case
    using Cons.IH [of "fst (frame2D (held2D i) (random2D i) s)"]
    by (simp only: run2D_Cons_fst frame2D_length_enemies)
qed

lemma floor_scaled_unit:
  fixes r :: real
  assumes "0 \<le> r" and "r < 1" and "0 < n"
  shows "0 \<le> \<lfloor>r * real n\<rfloor> \<and> nat \<lfloor>r * real n\<rfloor> < n"
proof -
  have "0 \<le> r * real n" using assms by simp
  then have lo: "0 \<le> \<lfloor>r * real n\<rfloor>" by simp
  have "r * real n < real n" using assms by simp
  then have "\<lfloor>r * real n\<rfloor> < int n" by (simp add: floor_less_iff)
  then show ?thesis using lo by linarith
qed

lemma js_index_in_range: "0 \<le> i \<Longrightarrow> nat i < length xs \<Longrightarrow> js_index xs i = Some (xs ! nat i)"
  by (simp add: js_index_def)

lemma respawn3D:
  assumes "15 < enemy_z e + enemy_speed e"
    and "0 \<le> draw_z d" and "0 \<le> draw_lane d" and "draw_lane d < 1"
    and "0 \<le> draw_color d" and "draw_color d < 1"
  shows "enemy_z (updateEnemy config px d e) = -20 - draw_z d * 10"
    and "enemy_z (updateEnemy config px d e) < 0"
    and "enemy_lane (updateEnemy config px d e) = \<lfloor>draw_lane d * 3\<rfloor>"
    and "enemy_lane (updateEnemy config px d e) \<in> {0, 1, 2}"
    and "enemy_x (updateEnemy config px d e) = Some (LANES ! nat \<lfloor>draw_lane d * 3\<rfloor>)"
    and "enemy_speed (updateEnemy config px d e) = 3 + draw_speed d * 3"
    and "enemy_color (updateEnemy config px d e) = Some (ENEMY_COLORS ! nat \<lfloor>draw_color d * 6\<rfloor>)"
    and "enemy_aggressiveness (updateEnemy config px d e) = enemy_aggressiveness e"
proof -
  have l: "0 \<le> \<lfloor>draw_lane d * 3\<rfloor> \<and> nat \<lfloor>draw_lane d * 3\<rfloor> < 3"
    using floor_scaled_unit [of "draw_lane d" 3] assms by simp
  have c: "0 \<le> \<lfloor>draw_color d * 6\<rfloor> \<and> nat \<lfloor>draw_color d * 6\<rfloor> < 6"
    using floor_scaled_unit [of "draw_color d" 6] assms by simp
  show "enemy_z (updateEnemy config px d e) = -20 - draw_z d * 10"
    using assms(1) by (simp add: updateEnemy_def Let_def)
  then show "enemy_z (updateEnemy config px d e) < 0"
    using assms(2) by simp
  show "enemy_lane (updateEnemy config px d e) = \<lfloor>draw_lane d * 3\<rfloor>"
    using assms(1) by (simp add: updateEnemy_def Let_def)
  then show "enemy_lane (updateEnemy config px d e) \<in> {0, 1, 2}"
    using l by (simp only: insert_iff empty_iff) linarith
  show "enemy_x (updateEnemy config px d e) = Some (LANES ! nat \<lfloor>draw_lane d * 3\<rfloor>)"
    using assms(1) l by (simp add: updateEnemy_def Let_def js_index_in_range LANES_def)
  show "enemy_speed (updateEnemy config px d e) = 3 + draw_speed d * 3"
    using assms(1) by (simp add: updateEnemy_def Let_def)
  show "enemy_color (updateEnemy config px d e) = Some (ENEMY_COLORS ! nat \<lfloor>draw_color d * 6\<rfloor>)"
    using assms(1) c by (simp add: updateEnemy_def Let_def js_index_in_range ENEMY_COLORS_def)
  show "enemy_aggressiveness (updateEnemy config px d e) = enemy_aggressiveness e"
    using assms(1) by (simp add: updateEnemy_def Let_def)
qed

lemma respawn2D:
  assumes "GAME_HEIGHT + 100 < enemy2D_y e + enemy2D_speed e + v * 0.5"
    and "0 \<le> draw2D_y d" and "0 \<le> draw2D_x d" and "draw2D_x d < 1"
  shows "enemy2D_y (updateEnemy2D v d e) = -200 - draw2D_y d * 500"
    and "enemy2D_y (updateEnemy2D v d e) < 0"
    and "enemy2D_x (updateEnemy2D v d e) = Some (LANES2D ! nat \<lfloor>draw2D_x d * 4\<rfloor>)"
    and "enemy2D_speed (updateEnemy2D v d e) = 3 + draw2D_speed d * 3"
    and "enemy2D_lane (updateEnemy2D v d e) = enemy2D_lane e"
proof -
  have l: "0 \<le> \<lfloor>draw2D_x d * 4\<rfloor> \<and> nat \<lfloor>draw2D_x d * 4\<rfloor> < 4"
    using floor_scaled_unit [of "draw2D_x d" 4] assms by simp
  show "enemy2D_y (updateEnemy2D v d e) = -200 - draw2D_y d * 500"
    using assms(1) by (simp add: updateEnemy2D_def Let_def)
  then show "enemy2D_y (updateEnemy2D v d e) < 0"
    using assms(2) by simp
  show "enemy2D_x (updateEnemy2D v d e) = Some (LANES2D ! nat \<lfloor>draw2D_x d * 4\<rfloor>)"
    using assms(1) l by (simp add: updateEnemy2D_def Let_def js_index_in_range LANES2D_def)
  show "enemy2D_speed (updateEnemy2D v d e) = 3 + draw2D_speed d * 3"
    using assms(1) by (simp add: updateEnemy2D_def Let_def ENEMY_SPEED_def)
  show "enemy2D_lane (updateEnemy2D v d e) = enemy2D_lane e"
    using assms(1) by (simp add: updateEnemy2D_def Let_def)
qed

text \<open>
  C6: every frame, and so every run of frames, keeps the number of enemies. On a frame that
  runs, an enemy whose advanced forward position exceeds the threshold (15 in the 3D game,
  \<open>GAME_HEIGHT + 100\<close> in the 2D game) is, in the state that this frame returns, at a
  negative depth drawn at random (at most \<open>-20\<close>, resp. \<open>-200\<close>), in a lane drawn at random
  from the fixed lanes, with a new speed drawn at random and, in the 3D game, a colour drawn
  at random. The 2D enemy has no colour, and its \<open>lane\<close> field is left as it was.
\<close>

theorem C6_enemy_recycling:
  "length (enemies (fst (frame3D keys rnd s))) = length (enemies s)
   \<and> length (enemies (fst (run3D is s))) = length (enemies s)
   \<and> (isPlaying s \<and> \<not> isPaused s \<and> i < length (enemies s)
        \<and> 15 < enemy_z (enemies s ! i) + enemy_speed (enemies s ! i)
        \<and> 0 \<le> draw_z (rnd i) \<and> 0 \<le> draw_lane (rnd i) \<and> draw_lane (rnd i) < 1
        \<and> 0 \<le> draw_color (rnd i) \<and> draw_color (rnd i) < 1
      \<longrightarrow> enemy_z (enemies (fst (frame3D keys rnd s)) ! i) = -20 - draw_z (rnd i) * 10
        \<and> enemy_z (enemies (fst (frame3D keys rnd s)) ! i) < 0
        \<and> enemy_lane (enemies (fst (frame3D keys rnd s)) ! i) = \<lfloor>draw_lane (rnd i) * 3\<rfloor>
        \<and> enemy_lane (enemies (fst (frame3D keys rnd s)) ! i) \<in> {0, 1, 2}
        \<and> enemy_x (enemies (fst (frame3D keys rnd s)) ! i) = Some (LANES ! nat \<lfloor>draw_lane (rnd i) * 3\<rfloor>)
        \<and> enemy_speed (enemies (fst (frame3D keys rnd s)) ! i) = 3 + draw_speed (rnd i) * 3
        \<and> enemy_color (enemies (fst (frame3D keys rnd s)) ! i)
            = Some (ENEMY_COLORS ! nat \<lfloor>draw_color (rnd i) * 6\<rfloor>))
   \<and> length (enemies2D (fst (frame2D keys rnd2 t))) = length (enemies2D t)
   \<and> length (enemies2D (fst (run2D is2 t))) = length (enemies2D t)
   \<and> (isPlaying2D t \<and> \<not> isPaused2D t \<and> j < length (enemies2D t)
        \<and> GAME_HEIGHT + 100 < enemy2D_y (enemies2D t ! j) + enemy2D_speed (enemies2D t ! j)
              + speed2D (fst (frame2D keys rnd2 t)) * 0.5
        \<and> 0 \<le> draw2D_y (rnd2 j) \<and> 0 \<le> draw2D_x (rnd2 j) \<and> draw2D_x (rnd2 j) < 1
      \<longrightarrow> enemy2D_y (enemies2D (fst (frame2D keys rnd2 t)) ! j) = -200 - draw2D_y (rnd2 j) * 500
        \<and> enemy2D_y (enemies2D (fst (frame2D keys rnd2 t)) ! j) < 0
        \<and> enemy2D_x (enemies2D (fst (frame2D keys rnd2 t)) ! j)
            = Some (LANES2D ! nat \<lfloor>draw2D_x (rnd2 j) * 4\<rfloor>)
        \<and> enemy2D_speed (enemies2D (fst (frame2D keys rnd2 t)) ! j) = 3 + draw2D_speed (rnd2 j) * 3
        \<and> enemy2D_lane (enemies2D (fst (frame2D keys rnd2 t)) ! j) = enemy2D_lane (enemies2D t ! j))"
proof -
  have a: "enemy_z (enemies (fst (frame3D keys rnd s)) ! i) = -20 - draw_z (rnd i) * 10
        \<and> enemy_z (enemies (fst (frame3D keys rnd s)) ! i) < 0
        \<and> enemy_lane (enemies (fst (frame3D keys rnd s)) ! i) = \<lfloor>draw_lane (rnd i) * 3\<rfloor>
        \<and> enemy_lane (enemies (fst (frame3D keys rnd s)) ! i) \<in> {0, 1, 2}
        \<and> enemy_x (enemies (fst (frame3D keys rnd s)) ! i) = Some (LANES ! nat \<lfloor>draw_lane (rnd i) * 3\<rfloor>)
        \<and> enemy_speed (enemies (fst (frame3D keys rnd s)) ! i) = 3 + draw_speed (rnd i) * 3
        \<and> enemy_color (enemies (fst (frame3D keys rnd s)) ! i)
            = Some (ENEMY_COLORS ! nat \<lfloor>draw_color (rnd i) * 6\<rfloor>)"
    if h: "isPlaying s" "\<not> isPaused s" "i < length (enemies s)"
      "15 < enemy_z (enemies s ! i) + enemy_speed (enemies s ! i)"
      "0 \<le> draw_z (rnd i)" "0 \<le> draw_lane (rnd i)" "draw_lane (rnd i) < 1"
      "0 \<le> draw_color (rnd i)" "draw_color (rnd i) < 1"
  proof -
    have "enemies (fst (frame3D keys rnd s)) ! i =
        updateEnemy (getModeConfig (mode s)) (steer keys (playerX s)) (rnd i) (enemies s ! i)"
      using h(1,2,3) by (simp add: frame3D_playing gameLoop3D_enemies nth_updateEnemies)
    then show ?thesis
      using respawn3D [OF h(4,5,6,7,8,9), of "getModeConfig (mode s)" "steer keys (playerX s)"]
      by simp
  qed
  have b: "enemy2D_y (enemies2D (fst (frame2D keys rnd2 t)) ! j) = -200 - draw2D_y (rnd2 j) * 500
        \<and> enemy2D_y (enemies2D (fst (frame2D keys rnd2 t)) ! j) < 0
        \<and> enemy2D_x (enemies2D (fst (frame2D keys rnd2 t)) ! j)
            = Some (LANES2D ! nat \<lfloor>draw2D_x (rnd2 j) * 4\<rfloor>)
        \<and> enemy2D_speed (enemies2D (fst (frame2D keys rnd2 t)) ! j) = 3 + draw2D_speed (rnd2 j) * 3
        \<and> enemy2D_lane (enemies2D (fst (frame2D keys rnd2 t)) ! j) = enemy2D_lane (enemies2D t ! j)"
    if h: "isPlaying2D t" "\<not> isPaused2D t" "j < length (enemies2D t)"
      "GAME_HEIGHT + 100 < enemy2D_y (enemies2D t ! j) + enemy2D_speed (enemies2D t ! j)
              + speed2D (fst (frame2D keys rnd2 t)) * 0.5"
      "0 \<le> draw2D_y (rnd2 j)" "0 \<le> draw2D_x (rnd2 j)" "draw2D_x (rnd2 j) < 1"
  proof -
    have v: "speed2D (fst (frame2D keys rnd2 t)) = throttle2D keys (speed2D t)"
      using h(1,2) by (simp add: frame2D_playing gameLoop2D_speed)
    have "enemies2D (fst (frame2D keys rnd2 t)) ! j =
        updateEnemy2D (throttle2D keys (speed2D t)) (rnd2 j) (enemies2D t ! j)"
      using h(1,2,3) by (simp add: frame2D_playing gameLoop2D_enemies nth_updateEnemies2D)
    then show ?thesis
      using respawn2D [OF h(4) [unfolded v] h(5,6,7)] by simp
  qed
  from a b show ?thesis
    by (simp only: frame3D_length_enemies run3D_length_enemies frame2D_length_enemies
          run2D_length_enemies) blast
qed

theorem C6_enemy_recycling_witness:
  "isPlaying crowded \<and> \<not> isPaused crowded \<and> (0::nat) < length (enemies crowded)
   \<and> 15 < enemy_z (enemies crowded ! 0) + enemy_speed (enemies crowded ! 0)
   \<and> length (enemies (fst (frame3D {} (\<lambda>_. respawnDraws) crowded))) = 1
   \<and> enemy_z (enemies (fst (frame3D {} (\<lambda>_. respawnDraws) crowded)) ! 0) = -25
   \<and> enemy_lane (enemies (fst (frame3D {} (\<lambda>_. respawnDraws) crowded)) ! 0) = 1
   \<and> enemy_x (enemies (fst (frame3D {} (\<lambda>_. respawnDraws) crowded)) ! 0) = Some 0
   \<and> enemy_speed (enemies (fst (frame3D {} (\<lambda>_. respawnDraws) crowded)) ! 0) = 4.5
   \<and> enemy_color (enemies (fst (frame3D {} (\<lambda>_. respawnDraws) crowded)) ! 0) = Some ''#44ff44''
   \<and> isPlaying2D crowded2D \<and> \<not> isPaused2D crowded2D \<and> (0::nat) < length (enemies2D crowded2D)
   \<and> length (enemies2D (fst (frame2D {} (\<lambda>_. respawnDraws2D) crowded2D))) = 1
   \<and> enemy2D_y (enemies2D (fst (frame2D {} (\<lambda>_. respawnDraws2D) crowded2D)) ! 0) = -450
   \<and> enemy2D_x (enemies2D (fst (frame2D {} (\<lambda>_. respawnDraws2D) crowded2D)) ! 0) = Some (-50)
   \<and> enemy2D_speed (enemies2D (fst (frame2D {} (\<lambda>_. respawnDraws2D) crowded2D)) ! 0) = 4.5"
proof -
  have p: "isPlaying crowded" "\<not> isPaused crowded" "enemies crowded = [leaving]"
    "isPlaying2D crowded2D" "\<not> isPaused2D crowded2D" "enemies2D crowded2D = [leaving2D]"
    "speed2D crowded2D = 5"
    by (simp_all add: crowded_def crowded2D_def emptyRoad_def emptyRoad2D_def)
  have v: "speed2D (fst (frame2D {} (\<lambda>_. respawnDraws2D) crowded2D)) = 5"
    using p by (simp add: frame2D_playing gameLoop2D_speed throttle2D_def)
  show ?thesis
    using p v
      C6_enemy_recycling [of "{}" "\<lambda>_. respawnDraws" crowded "[]" 0 "\<lambda>_. respawnDraws2D" crowded2D "[]" 0]
    by (simp add: leaving_def leaving2D_def respawnDraws_def respawnDraws2D_def
          LANES_def LANES2D_def ENEMY_COLORS_def GAME_HEIGHT_def)
qed

section \<open>C7: the score of a frame\<close>

text \<open>
  C7: a frame that runs adds to the score the new speed times 10 times a multiplier, and
  the multiplier is the sum of 1, of 0.5 if nitro is used on this frame, of 0.3 if the
  perfect-driving counter (after this frame) exceeds 60, and of 0.2 if the new speed exceeds
  0.9 times the maximum speed of the mode. These are the bonuses of the 3D game; the 2D game
  has none of them and adds the new speed times 10.
\<close>

theorem C7_score_increment:
  "(isPlaying s \<and> \<not> isPaused s \<longrightarrow>
      score (fst (frame3D keys rnd s)) =
        score s + speed (fst (frame3D keys rnd s)) * 10 *
          (1 + (if usesNitro keys (getModeConfig (mode s)) s then 0.5 else 0)
             + (if perfectDriving (fst (frame3D keys rnd s)) > 60 then 0.3 else 0)
             + (if speed (fst (frame3D keys rnd s)) > maxSpeed (getModeConfig (mode s)) * 0.9
                then 0.2 else 0)))
   \<and> (isPlaying s \<and> \<not> isPaused s \<and> usesNitro keys (getModeConfig (mode s)) s \<longrightarrow>
      nitroBoost (fst (frame3D keys rnd s)) = max (nitroBoost s - 0.5) 0)
   \<and> (isPlaying2D t \<and> \<not> isPaused2D t \<longrightarrow>
      score2D (fst (frame2D keys rnd2 t)) = score2D t + speed2D (fst (frame2D keys rnd2 t)) * 10)"
proof -
  have a: "score (fst (frame3D keys rnd s)) =
        score s + speed (fst (frame3D keys rnd s)) * 10 *
          (1 + (if usesNitro keys (getModeConfig (mode s)) s then 0.5 else 0)
             + (if perfectDriving (fst (frame3D keys rnd s)) > 60 then 0.3 else 0)
             + (if speed (fst (frame3D keys rnd s)) > maxSpeed (getModeConfig (mode s)) * 0.9
                then 0.2 else 0))"
    if "isPlaying s" "\<not> isPaused s"
  proof -
    have fr: "frame3D keys rnd s = gameLoop3D keys rnd s"
      using that by (simp add: frame3D_playing)
    have n: "(hasNitro (getModeConfig (mode s)) \<and> usesNitro keys (getModeConfig (mode s)) s)
        = usesNitro keys (getModeConfig (mode s)) s"
      by (auto simp add: usesNitro_def)
    show ?thesis
      unfolding fr by (subst gameLoop3D_score) (simp only: scoreMultiplier_def n)
  qed
  have b: "score2D (fst (frame2D keys rnd2 t)) = score2D t + speed2D (fst (frame2D keys rnd2 t)) * 10"
    if "isPlaying2D t" "\<not> isPaused2D t"
    using that by (simp add: frame2D_playing gameLoop2D_score)
  have c: "nitroBoost (fst (frame3D keys rnd s)) = max (nitroBoost s - 0.5) 0"
    if "isPlaying s" "\<not> isPaused s" "usesNitro keys (getModeConfig (mode s)) s"
    using that by (simp add: frame3D_playing gameLoop3D_def Let_def nitroAfter_def)
  from a b c show ?thesis by blast
qed

theorem C7_score_increment_witness:
  "isPlaying flatOut \<and> \<not> isPaused flatOut
   \<and> usesNitro {''ArrowUp'', ''ShiftLeft''} (getModeConfig (mode flatOut)) flatOut
   \<and> speed (fst (frame3D {''ArrowUp'', ''ShiftLeft''} (\<lambda>_. quietDraws) flatOut)) = 20.8
   \<and> perfectDriving (fst (frame3D {''ArrowUp'', ''ShiftLeft''} (\<lambda>_. quietDraws) flatOut)) = 101
   \<and> score (fst (frame3D {''ArrowUp'', ''ShiftLeft''} (\<lambda>_. quietDraws) flatOut)) = 1000 + 20.8 * 10 * 2
   \<and> nitroBoost (fst (frame3D {''ArrowUp'', ''ShiftLeft''} (\<lambda>_. quietDraws) flatOut)) = 99.5
   \<and> isPlaying2D flatOut2D \<and> \<not> isPaused2D flatOut2D
   \<and> speed2D (fst (frame2D {''ArrowUp''} (\<lambda>_. quietDraws2D) flatOut2D)) = 15
   \<and> score2D (fst (frame2D {''ArrowUp''} (\<lambda>_. quietDraws2D) flatOut2D)) = 1000 + 15 * 10"
proof -
  have p: "isPlaying flatOut" "\<not> isPaused flatOut" "mode flatOut = competition"
    "speed flatOut = 20" "nitroBoost flatOut = 100" "perfectDriving flatOut = 100"
    "playerX flatOut = 0" "score flatOut = 1000"
    "isPlaying2D flatOut2D" "\<not> isPaused2D flatOut2D" "speed2D flatOut2D = 15" "score2D flatOut2D = 1000"
    by (simp_all add: flatOut_def flatOut2D_def emptyRoad_def emptyRoad2D_def)
  have u: "usesNitro {''ArrowUp'', ''ShiftLeft''} (getModeConfig (mode flatOut)) flatOut"
    using p by (simp add: usesNitro_def)
  have v: "speed (fst (frame3D {''ArrowUp'', ''ShiftLeft''} (\<lambda>_. quietDraws) flatOut)) = 20.8"
    using p by (simp add: frame3D_playing gameLoop3D_speed boosted_def usesNitro_def throttle_def)
  have d: "perfectDriving (fst (frame3D {''ArrowUp'', ''ShiftLeft''} (\<lambda>_. quietDraws) flatOut)) = 101"
    using p by (simp add: frame3D_playing gameLoop3D_perfectDriving boosted_def usesNitro_def
          throttle_def steer_def)
  have v2: "speed2D (fst (frame2D {''ArrowUp''} (\<lambda>_. quietDraws2D) flatOut2D)) = 15"
    using p by (simp add: frame2D_playing gameLoop2D_speed throttle2D_def)
  show ?thesis
    using p u v d v2
      C7_score_increment [of flatOut "{''ArrowUp'', ''ShiftLeft''}" "\<lambda>_. quietDraws" flatOut2D
        "\<lambda>_. quietDraws2D"]
      C7_score_increment [of flatOut "{''ArrowUp''}" "\<lambda>_. quietDraws" flatOut2D "\<lambda>_. quietDraws2D"]
    by simp
qed

section \<open>C8: the score never decreases\<close>

lemma maxSpeed_nonneg: "0 \<le> maxSpeed (getModeConfig m)"
  by (cases m) simp_all

lemma boosted_nonneg: "0 \<le> speed s \<Longrightarrow> 0 \<le> boosted keys (getModeConfig m) s"
  using maxSpeed_nonneg [of m]
  by (simp add: boosted_def throttle_def le_max_iff_disj)

lemma scoreMultiplier_pos: "0 \<le> scoreMultiplier config n p v"
  by (simp add: scoreMultiplier_def)

lemma frame3D_score_mono:
  assumes "0 \<le> speed s"
  shows "0 \<le> speed (fst (frame3D keys rnd s)) \<and> score s \<le> score (fst (frame3D keys rnd s))"
proof (cases "\<not> isPlaying s \<or> isPaused s")
  case True
  then show ?thesis using assms by (simp add: frame3D_idle)
next
  case False
  then have fr: "frame3D keys rnd s = gameLoop3D keys rnd s" by (simp add: frame3D_playing)
  have v: "0 \<le> speed (fst (gameLoop3D keys rnd s))"
    using boosted_nonneg [OF assms, of keys "mode s"] by (simp add: gameLoop3D_speed)
  have "0 \<le> speed (fst (gameLoop3D keys rnd s)) * 10 *
       scoreMultiplier (getModeConfig (mode s)) (usesNitro keys (getModeConfig (mode s)) s)
         (perfectDriving (fst (gameLoop3D keys rnd s))) (speed (fst (gameLoop3D keys rnd s)))"
    using v scoreMultiplier_pos by simp
  then have "score s \<le> score (fst (gameLoop3D keys rnd s))"
    by (subst gameLoop3D_score) simp
  then show ?thesis using v fr by simp
qed

lemma throttle2D_nonneg: "0 \<le> v \<Longrightarrow> 0 \<le> throttle2D keys v"
  by (simp add: throttle2D_def le_max_iff_disj)

lemma frame2D_score_mono:
  assumes "0 \<le> speed2D t"
  shows "0 \<le> speed2D (fst (frame2D keys rnd t)) \<and> score2D t \<le> score2D (fst (frame2D keys rnd t))"
proof (cases "\<not> isPlaying2D t \<or> isPaused2D t")
  case True
  then show ?thesis using assms by (simp add: frame2D_idle)
next
  case False
  then have fr: "frame2D keys rnd t = gameLoop2D keys rnd t" by (simp add: frame2D_playing)
  have v: "0 \<le> speed2D (fst (gameLoop2D keys rnd t))"
    using throttle2D_nonneg [OF assms, of keys] by (simp add: gameLoop2D_speed)
  then have "score2D t \<le> score2D (fst (gameLoop2D keys rnd t))"
    by (subst gameLoop2D_score) simp
  then show ?thesis using v fr by simp
qed

lemma run3D_score_mono:
  assumes "0 \<le> speed s"
  shows "0 \<le> speed (fst (run3D is s)) \<and> score s \<le> score (fst (run3D is s))"
  using assms
proof (induction "is" arbitrary: s)
  case Nil
  then show ?case by simp
next
  case (Cons i "is")
  have st: "0 \<le> speed (fst (frame3D (held i) (random i) s))"
    "score s \<le> score (fst (frame3D (held i) (random i) s))"
    using frame3D_score_mono [OF Cons.prems, of "held i" "random i"] by simp_all
  show ?case
    using Cons.IH [OF st(1)] st(2) by (simp only: run3D_Cons_fst) auto
qed

lemma run2D_score_mono:
  assumes "0 \<le> speed2D t"
  shows "0 \<le> speed2D (fst (run2D is t)) \<and> score2D t \<le> score2D (fst (run2D is t))"
  using assms
proof (induction "is" arbitrary: t)
  case Nil
  then show ?case by simp
next
  case (Cons i "is")
  have st: "0 \<le> speed2D (fst (frame2D (held2D i) (random2D i) t))"
    "score2D t \<le> score2D (fst (frame2D (held2D i) (random2D i) t))"
    using frame2D_score_mono [OF Cons.prems, of "held2D i" "random2D i"] by simp_all
  show ?case
    using Cons.IH [OF st(1)] st(2) by (simp only: run2D_Cons_fst) auto
qed

text \<open>
  C8: in a session whose speed and score start non-negative (\<^verbatim>\<open>initGame\<close> sets the score
  to 0 and the speed to 5, in the 2D game to 0), after every run of frames the score is
  non-negative, and the next frame, whatever its input, returns a score that is at least
  the score before it. Both games.
\<close>

theorem C8_score_monotone:
  "(0 \<le> speed s \<and> 0 \<le> score s \<longrightarrow>
      0 \<le> score (fst (run3D is s))
      \<and> score (fst (run3D is s)) \<le> score (fst (frame3D keys rnd (fst (run3D is s))))
      \<and> score (fst (run3D is s)) \<le> score (fst (run3D (is @ js) s)))
   \<and> (0 \<le> speed2D t \<and> 0 \<le> score2D t \<longrightarrow>
      0 \<le> score2D (fst (run2D is2 t))
      \<and> score2D (fst (run2D is2 t)) \<le> score2D (fst (frame2D keys rnd2 (fst (run2D is2 t))))
      \<and> score2D (fst (run2D is2 t)) \<le> score2D (fst (run2D (is2 @ js2) t)))"
proof -
  have a: "0 \<le> score (fst (run3D is s))
      \<and> score (fst (run3D is s)) \<le> score (fst (frame3D keys rnd (fst (run3D is s))))
      \<and> score (fst (run3D is s)) \<le> score (fst (run3D (is @ js) s))"
    if h: "0 \<le> speed s" "0 \<le> score s"
  proof -
    have r: "0 \<le> speed (fst (run3D is s))" "score s \<le> score (fst (run3D is s))"
      using run3D_score_mono [OF h(1), of "is"] by simp_all
    have "score (fst (run3D is s)) \<le> score (fst (frame3D keys rnd (fst (run3D is s))))"
      using frame3D_score_mono [OF r(1), of keys rnd] by simp
    moreover have "score (fst (run3D is s)) \<le> score (fst (run3D js (fst (run3D is s))))"
      using run3D_score_mono [OF r(1), of js] by simp
    ultimately show ?thesis using r(2) h(2) by (simp add: run3D_append)
  qed
  have b: "0 \<le> score2D (fst (run2D is2 t))
      \<and> score2D (fst (run2D is2 t)) \<le> score2D (fst (frame2D keys rnd2 (fst (run2D is2 t))))
      \<and> score2D (fst (run2D is2 t)) \<le> score2D (fst (run2D (is2 @ js2) t))"
    if h: "0 \<le> speed2D t" "0 \<le> score2D t"
  proof -
    have r: "0 \<le> speed2D (fst (run2D is2 t))" "score2D t \<le> score2D (fst (run2D is2 t))"
      using run2D_score_mono [OF h(1), of is2] by simp_all
    have "score2D (fst (run2D is2 t)) \<le> score2D (fst (frame2D keys rnd2 (fst (run2D is2 t))))"
      using frame2D_score_mono [OF r(1), of keys rnd2] by simp
    moreover have "score2D (fst (run2D is2 t)) \<le> score2D (fst (run2D js2 (fst (run2D is2 t))))"
      using run2D_score_mono [OF r(1), of js2] by simp
    ultimately show ?thesis using r(2) h(2) by (simp add: run2D_append)
  qed
  from a b show ?thesis by blast
qed

theorem C8_score_monotone_witness:
  "0 \<le> speed (countdownDone3D (initGame3D classic (\<lambda>_. zeroInit)))
   \<and> 0 \<le> score (countdownDone3D (initGame3D classic (\<lambda>_. zeroInit)))
   \<and> 0 \<le> score (fst (run3D [boost, coast] (countdownDone3D (initGame3D classic (\<lambda>_. zeroInit)))))
   \<and> score (fst (run3D [boost, coast] (countdownDone3D (initGame3D classic (\<lambda>_. zeroInit)))))
       \<le> score (fst (run3D ([boost, coast] @ [coast]) (countdownDone3D (initGame3D classic (\<lambda>_. zeroInit)))))
   \<and> 0 \<le> speed2D (countdownDone2D (initGame2D classic (\<lambda>_. zeroInit2D)))
   \<and> 0 \<le> score2D (countdownDone2D (initGame2D classic (\<lambda>_. zeroInit2D)))
   \<and> 0 \<le> score2D (fst (run2D [coast2D] (countdownDone2D (initGame2D classic (\<lambda>_. zeroInit2D)))))
   \<and> score2D (fst (run2D [coast2D] (countdownDone2D (initGame2D classic (\<lambda>_. zeroInit2D)))))
       \<le> score2D (fst (run2D ([coast2D] @ [coast2D]) (countdownDone2D (initGame2D classic (\<lambda>_. zeroInit2D)))))"
proof -
  have p: "speed (countdownDone3D (initGame3D classic (\<lambda>_. zeroInit))) = 5"
    "score (countdownDone3D (initGame3D classic (\<lambda>_. zeroInit))) = 0"
    "speed2D (countdownDone2D (initGame2D classic (\<lambda>_. zeroInit2D))) = 0"
    "score2D (countdownDone2D (initGame2D classic (\<lambda>_. zeroInit2D))) = 0"
    by (simp_all add: countdownDone3D_def initGame3D_def countdownDone2D_def initGame2D_def)
  show ?thesis
    using
      C8_score_monotone [of "countdownDone3D (initGame3D classic (\<lambda>_. zeroInit))" "[boost, coast]"
        "{}" "\<lambda>_. quietDraws" "[coast]" "countdownDone2D (initGame2D classic (\<lambda>_. zeroInit2D))"
        "[coast2D]" "\<lambda>_. quietDraws2D" "[coast2D]"]
    by (simp only: p) simp
qed

section \<open>C9: the 2D loop and the 3D loop\<close>

lemma gameLoop3D_position:
  "position (fst (gameLoop3D keys rnd s)) = position s + speed (fst (gameLoop3D keys rnd s))"
  by (simp add: gameLoop3D_def Let_def)

lemma gameLoop2D_position:
  "position2D (fst (gameLoop2D keys rnd s)) = position2D s + speed2D (fst (gameLoop2D keys rnd s))"
  by (simp add: gameLoop2D_def Let_def)

lemma gameLoop2D_mode: "mode2D (fst (gameLoop2D keys rnd s)) = mode2D s"
  by (simp add: gameLoop2D_def Let_def)

lemma same_timeLimit: "timeLimit2D (getModeConfig2D m) = timeLimit (getModeConfig m)"
  by (cases m) simp_all

text \<open>
  Counterexample to C9 as stated: two playing states that agree on every shared field
  (classic mode, time 0, speed 5, player in the middle, position and score 0, no enemies),
  one frame with accelerate held: the 2D loop returns speed 5.5, position 5.5 and score 55,
  the 3D loop speed 5.3, position 5.3 and score 53.
\<close>

theorem C9_counterexample:
  "shared2D (emptyRoad2D classic 0) = shared3D (emptyRoad classic 0)
   \<and> shared2D (fst (frame2D {''ArrowUp''} (\<lambda>_. quietDraws2D) (emptyRoad2D classic 0)))
       = (classic, 1 / 60, 5.5, 0, 5.5, 55)
   \<and> shared3D (fst (frame3D {''ArrowUp''} (\<lambda>_. quietDraws) (emptyRoad classic 0)))
       = (classic, 1 / 60, 5.3, 0, 5.3, 53)
   \<and> shared2D (fst (frame2D {''ArrowUp''} (\<lambda>_. quietDraws2D) (emptyRoad2D classic 0)))
       \<noteq> shared3D (fst (frame3D {''ArrowUp''} (\<lambda>_. quietDraws) (emptyRoad classic 0)))"
  by (simp add: shared2D_def shared3D_def frame2D_def frame3D_def gameLoop2D_def gameLoop3D_def
        emptyRoad_def emptyRoad2D_def Let_def steer_def steer2D_def throttle_def throttle2D_def
        boosted_def usesNitro_def nitroAfter_def updateEnemies_def updateEnemies2D_def
        collisionDetected_def collisionDetected2D_def scoreMultiplier_def js_rem_def
        ROAD_WIDTH_def PLAYER_SPEED_def enumerate_eq_zip)

text \<open>
  C9, amended: the two loops agree on the clock and on the shape of the step, not on its
  numbers. For playing states of the same mode and elapsed time, a frame of either adds
  1/60 to the time, keeps the mode, reaches the time limit in the one exactly if in the
  other (the limits of the five modes are the same), and adds its own new speed to the
  forward position; the 2D score grows by the new speed times 10. Speed, lateral movement,
  enemy advance, collision rectangles and the 3D score bonuses follow different formulas.
\<close>

theorem C9_shared_step:
  "timeLimit2D (getModeConfig2D m) = timeLimit (getModeConfig m)
   \<and> (isPlaying s \<and> \<not> isPaused s \<and> isPlaying2D t \<and> \<not> isPaused2D t
        \<and> mode2D t = mode s \<and> time2D t = time s \<longrightarrow>
      time2D (fst (frame2D keys rnd2 t)) = time (fst (frame3D keys rnd s))
      \<and> time (fst (frame3D keys rnd s)) = time s + 1 / 60
      \<and> mode2D (fst (frame2D keys rnd2 t)) = mode (fst (frame3D keys rnd s))
      \<and> (timeUp2D t \<longleftrightarrow> timeUp3D s)
      \<and> (gameOver2D (fst (frame2D keys rnd2 t)) \<longleftrightarrow> gameOver2D t \<or> hits2D keys rnd2 t \<or> timeUp2D t)
      \<and> (gameOver (fst (frame3D keys rnd s)) \<longleftrightarrow>
           gameOver s
           \<or> (hits3D keys rnd s \<and> (hasHealth (getModeConfig (mode s)) \<longrightarrow> health s \<le> 10))
           \<or> timeUp3D s)
      \<and> position2D (fst (frame2D keys rnd2 t)) = position2D t + speed2D (fst (frame2D keys rnd2 t))
      \<and> position (fst (frame3D keys rnd s)) = position s + speed (fst (frame3D keys rnd s))
      \<and> score2D (fst (frame2D keys rnd2 t)) = score2D t + speed2D (fst (frame2D keys rnd2 t)) * 10)"
proof -
  have "time2D (fst (frame2D keys rnd2 t)) = time (fst (frame3D keys rnd s))
      \<and> time (fst (frame3D keys rnd s)) = time s + 1 / 60
      \<and> mode2D (fst (frame2D keys rnd2 t)) = mode (fst (frame3D keys rnd s))
      \<and> (timeUp2D t \<longleftrightarrow> timeUp3D s)
      \<and> (gameOver2D (fst (frame2D keys rnd2 t)) \<longleftrightarrow> gameOver2D t \<or> hits2D keys rnd2 t \<or> timeUp2D t)
      \<and> (gameOver (fst (frame3D keys rnd s)) \<longleftrightarrow>
           gameOver s
           \<or> (hits3D keys rnd s \<and> (hasHealth (getModeConfig (mode s)) \<longrightarrow> health s \<le> 10))
           \<or> timeUp3D s)
      \<and> position2D (fst (frame2D keys rnd2 t)) = position2D t + speed2D (fst (frame2D keys rnd2 t))
      \<and> position (fst (frame3D keys rnd s)) = position s + speed (fst (frame3D keys rnd s))
      \<and> score2D (fst (frame2D keys rnd2 t)) = score2D t + speed2D (fst (frame2D keys rnd2 t)) * 10"
    if h: "isPlaying s" "\<not> isPaused s" "isPlaying2D t" "\<not> isPaused2D t"
      "mode2D t = mode s" "time2D t = time s"
  proof -
    have fr: "frame3D keys rnd s = gameLoop3D keys rnd s" "frame2D keys rnd2 t = gameLoop2D keys rnd2 t"
      using h by (simp_all add: frame3D_playing frame2D_playing)
    show ?thesis
      unfolding fr
      by (simp add: gameLoop3D_time gameLoop2D_time gameLoop3D_mode gameLoop2D_mode
            gameLoop3D_gameOver gameLoop2D_gameOver gameLoop3D_position gameLoop2D_position
            gameLoop2D_score h(5,6) timeUp3D_def timeUp2D_def same_timeLimit
            cong: option.case_cong)
  qed
  then show ?thesis using same_timeLimit [of m] by blast
qed

theorem C9_shared_step_witness:
  "isPlaying (emptyRoad classic 0) \<and> \<not> isPaused (emptyRoad classic 0)
   \<and> isPlaying2D (emptyRoad2D classic 0) \<and> \<not> isPaused2D (emptyRoad2D classic 0)
   \<and> mode2D (emptyRoad2D classic 0) = mode (emptyRoad classic 0)
   \<and> time2D (emptyRoad2D classic 0) = time (emptyRoad classic 0)
   \<and> time2D (fst (frame2D {''ArrowUp''} (\<lambda>_. quietDraws2D) (emptyRoad2D classic 0)))
       = time (fst (frame3D {''ArrowUp''} (\<lambda>_. quietDraws) (emptyRoad classic 0)))
   \<and> time (fst (frame3D {''ArrowUp''} (\<lambda>_. quietDraws) (emptyRoad classic 0))) = 1 / 60
   \<and> mode2D (fst (frame2D {''ArrowUp''} (\<lambda>_. quietDraws2D) (emptyRoad2D classic 0)))
       = mode (fst (frame3D {''ArrowUp''} (\<lambda>_. quietDraws) (emptyRoad classic 0)))"
proof -
  have p: "isPlaying (emptyRoad classic 0)" "\<not> isPaused (emptyRoad classic 0)"
    "isPlaying2D (emptyRoad2D classic 0)" "\<not> isPaused2D (emptyRoad2D classic 0)"
    "mode2D (emptyRoad2D classic 0) = classic" "mode (emptyRoad classic 0) = classic"
    "time2D (emptyRoad2D classic 0) = 0" "time (emptyRoad classic 0) = 0"
    by (simp_all add: emptyRoad_def emptyRoad2D_def)
  show ?thesis
    using
      C9_shared_step [of classic "emptyRoad classic 0" "emptyRoad2D classic 0" "{''ArrowUp''}"
        "\<lambda>_. quietDraws2D" "\<lambda>_. quietDraws"]
    by (simp add: p)
qed

section \<open>C10: enemy lanes\<close>

text \<open>
  The lane computed for the player is an index of \<open>LANES\<close> exactly while the player is
  within \<open>[-3, 3)\<close>; the road lets the player move within \<open>[-4, 4]\<close>.
\<close>

lemma playerLane_in_range:
  assumes "-3 \<le> x" and "x < 3"
  shows "0 \<le> js_round ((x + 2) / 2) \<and> js_round ((x + 2) / 2) \<le> 2"
proof -
  have "0 \<le> (x + 2) / 2 + 1 / 2" "(x + 2) / 2 + 1 / 2 < 3"
    using assms by argo+
  then have "0 \<le> \<lfloor>(x + 2) / 2 + 1 / 2\<rfloor>" "\<lfloor>(x + 2) / 2 + 1 / 2\<rfloor> < 3"
    by (simp_all add: floor_less_iff)
  then show ?thesis by (simp add: js_round_def)
qed

lemma playerLane_left_of_lanes: "x < -3 \<Longrightarrow> js_round ((x + 2) / 2) < 0"
proof -
  assume "x < -3"
  then have "(x + 2) / 2 + 1 / 2 < 0" by argo
  then show ?thesis by (simp add: js_round_def floor_less_iff)
qed

lemma playerLane_right_of_lanes: "3 \<le> x \<Longrightarrow> 2 < js_round ((x + 2) / 2)"
proof -
  assume "3 \<le> x"
  then have "3 \<le> (x + 2) / 2 + 1 / 2" by argo
  then have "3 \<le> \<lfloor>(x + 2) / 2 + 1 / 2\<rfloor>" by (simp add: le_floor_iff)
  then show ?thesis by (simp add: js_round_def)
qed

text \<open>
  C10 fails on the code. With the player at \<open>x = -3.5\<close> (left of the leftmost lane, inside
  the road bounds) the player's lane is computed as \<open>-1\<close>; an aggressive enemy in lane 0
  within reach that passes the random test moves to lane \<open>-1\<close>, which is not an index of
  \<open>LANES\<close>, and its \<open>x\<close> becomes \<^verbatim>\<open>undefined\<close>. The mirror case is a player at \<open>x \<ge> 3\<close>
  and an enemy in lane 2, which moves to lane 3.
\<close>

theorem C10_lane_out_of_range:
  "isPlaying cornered \<and> \<not> isPaused cornered \<and> - 4 \<le> playerX cornered \<and> playerX cornered \<le> 4
   \<and> enemies cornered = [blocker] \<and> enemy_lane blocker = 0 \<and> enemy_x blocker = Some (-2)
   \<and> enemies (fst (frame3D {} (\<lambda>_. eagerDraws) cornered))
       = [blocker\<lparr>enemy_x := None, enemy_z := -1, enemy_lane := -1\<rparr>]
   \<and> js_index LANES (-1) = None"
  by (simp add: cornered_def emptyRoad_def frame3D_def gameLoop3D_enemies steer_def
        updateEnemies_def updateEnemy_def blocker_def eagerDraws_def truthy_def blocks_def
        js_round_def js_index_def Let_def enumerate_eq_zip)

theorem C10_lane_out_of_range_witness:
  "isPlaying cornered \<and> \<not> isPaused cornered
   \<and> map enemy_lane (enemies (fst (frame3D {} (\<lambda>_. eagerDraws) cornered))) = [-1]
   \<and> map enemy_x (enemies (fst (frame3D {} (\<lambda>_. eagerDraws) cornered))) = [None]"
  using C10_lane_out_of_range by simp

end
